theory Spec2Isabelle
  imports Complex_Main "HOL-Library.Word" "HOL-Library.Multiset"
begin

unbundle bit_operations_syntax

chapter \<open>The embedding\<close>

section \<open>Go values, errors and panics\<close>

text \<open>
  The Go sources pass rows and request fields as \<^verbatim>\<open>map[string]interface{}\<close>. A value
  of \<^verbatim>\<open>interface{}\<close> is one of the dynamic types the code asserts on; a missing key
  reads as \<^verbatim>\<open>nil\<close>. A failed type assertion \<^verbatim>\<open>v.(string)\<close> without the
  comma-ok form panics, so every function that asserts returns an \<open>outcome\<close>.
\<close>

datatype go_value =
    VNil
  | VString string
  | VInt64 int
  | VFloat64 real
  | VBool bool
  | VStrings "string list"

datatype go_error = Error string

datatype 'a outcome = Panic string | Returned 'a

type_synonym gomap = "string \<rightharpoonup> go_value"

definition index_map :: "gomap \<Rightarrow> string \<Rightarrow> go_value" where
  \<comment> \<open>\<^verbatim>\<open>m[k]\<close>: the zero value \<^verbatim>\<open>nil\<close> when the key is absent\<close>
  "index_map m k = (case m k of None \<Rightarrow> VNil | Some v \<Rightarrow> v)"

definition assert_string :: "go_value \<Rightarrow> string outcome" where
  \<comment> \<open>\<^verbatim>\<open>v.(string)\<close>\<close>
  "assert_string v =
     (case v of VString s \<Rightarrow> Returned s
      | _ \<Rightarrow> Panic ''interface conversion: interface {} is not string'')"

definition assert_string_ok :: "go_value \<Rightarrow> string" where
  \<comment> \<open>\<^verbatim>\<open>s, _ := v.(string)\<close>: the empty string when the assertion fails\<close>
  "assert_string_ok v = (case v of VString s \<Rightarrow> s | _ \<Rightarrow> [])"

text \<open>
  \<^verbatim>\<open>strconv\<close>: \<open>FormatInt\<close> is the decimal text of an \<^verbatim>\<open>int64\<close> (also what \<^verbatim>\<open>%v\<close> prints),
  \<open>ParseInt\<close> is \<^verbatim>\<open>strconv.ParseInt(s, 10, 64)\<close>, which returns the nearest bound with a
  range error, and \<open>ParseUint\<close> is \<^verbatim>\<open>strconv.ParseUint(s, 10, 64)\<close>, which takes no sign.
\<close>

function nat_decimal :: "nat \<Rightarrow> string" where
  "nat_decimal n =
     (if n < 10 then [''0123456789'' ! n]
      else nat_decimal (n div 10) @ [''0123456789'' ! (n mod 10)])"
  by pat_completeness auto
termination
  by (relation "measure id") auto

declare nat_decimal.simps [simp del]

definition FormatInt :: "int \<Rightarrow> string" where
  \<comment> \<open>\<^verbatim>\<open>%v\<close> of an \<^verbatim>\<open>int64\<close>\<close>
  "FormatInt i = (if i < 0 then CHR ''-'' # nat_decimal (nat (- i)) else nat_decimal (nat i))"

fun parse_digits :: "string \<Rightarrow> nat \<Rightarrow> nat option" where
  "parse_digits [] acc = Some acc"
| "parse_digits (c # cs) acc =
     (if 48 \<le> (of_char c :: nat) \<and> (of_char c :: nat) \<le> 57
      then parse_digits cs (acc * 10 + (of_char c - 48))
      else None)"

definition ParseInt :: "string \<Rightarrow> int \<times> go_error option" where
  "ParseInt s =
     (let (neg, digits) =
            (case s of
               c # rest \<Rightarrow> if c = CHR ''-'' then (True, rest)
                           else if c = CHR ''+'' then (False, rest) else (False, s)
             | [] \<Rightarrow> (False, s))
      in if digits = [] then (0, Some (Error ''invalid syntax''))
         else case parse_digits digits 0 of
                None \<Rightarrow> (0, Some (Error ''invalid syntax''))
              | Some n \<Rightarrow>
                  (let v = (if neg then - int n else int n)
                   in if 2 ^ 63 - 1 < v then (2 ^ 63 - 1, Some (Error ''value out of range''))
                      else if v < - (2 ^ 63) then (- (2 ^ 63), Some (Error ''value out of range''))
                      else (v, None)))"

definition ParseUint :: "string \<Rightarrow> int \<times> go_error option" where
  "ParseUint s =
     (if s = [] then (0, Some (Error ''invalid syntax''))
      else case parse_digits s 0 of
             None \<Rightarrow> (0, Some (Error ''invalid syntax''))
           | Some n \<Rightarrow>
               if 2 ^ 64 - 1 < int n then (2 ^ 64 - 1, Some (Error ''value out of range''))
               else (int n, None))"

section \<open>server/id/id.go: DaptinReferenceId\<close>

text \<open>
  \<^verbatim>\<open>type DaptinReferenceId [16]byte\<close>. The array is a list of bytes whose length is 16;
  the theorems carry that length as their hypothesis. \<^verbatim>\<open>copy(dst, src)\<close> overwrites
  the first \<open>min (len dst) (len src)\<close> elements of \<open>dst\<close>.
\<close>

type_synonym byte = "8 word"

definition go_copy :: "'a list \<Rightarrow> 'a list \<Rightarrow> 'a list" where
  "go_copy dst src =
     (let n = min (length dst) (length src) in take n src @ drop n dst)"

definition MarshalBinary :: "byte list \<Rightarrow> byte list \<times> go_error option" where
  "MarshalBinary d = (d, None)"

definition UnmarshalBinary :: "byte list \<Rightarrow> byte list \<Rightarrow> byte list \<times> go_error option" where
  \<comment> \<open>the receiver \<open>d\<close> is a pointer: the first component is the receiver afterwards\<close>
  "UnmarshalBinary d data =
     (if length data \<noteq> 16
      then (d, Some (Error ''invalid data length: expected exactly 16 bytes''))
      else (go_copy d data, None))"

section \<open>Permission bits\<close>

text \<open>
  Modelled from the spec: the package \<^verbatim>\<open>server/auth\<close> (the type \<^verbatim>\<open>AuthPermission\<close>, the
  bit constants, \<^verbatim>\<open>GroupPermission\<close> and \<^verbatim>\<open>CanExecute\<close>) is not among the sources. The
  constants follow the bit layout of the external-interfaces section: bit 0 is
  \<^verbatim>\<open>GuestPeek\<close>, bit 7 \<^verbatim>\<open>UserPeek\<close>, bit 14 \<^verbatim>\<open>GroupPeek\<close>, each field in the order
  Peek, Read, Create, Update, Delete, Execute, Refer; \<^verbatim>\<open>UserCRUD\<close> and \<^verbatim>\<open>GroupCRUD\<close> are
  Read, Create, Update and Delete. \<^verbatim>\<open>AuthPermission\<close> is an \<^verbatim>\<open>int64\<close>; no operation on it
  here leaves the low 21 bits, so it is an \<open>int\<close>.
\<close>

type_synonym AuthPermission = int

definition GuestPeek :: AuthPermission where
  \<comment> \<open>Modelled from the spec: bit 0 of the layout\<close>
  "GuestPeek = push_bit 0 1"
definition GuestRead :: AuthPermission where
  \<comment> \<open>Modelled from the spec: bit 1 of the layout\<close>
  "GuestRead = push_bit 1 1"
definition GuestCreate :: AuthPermission where
  \<comment> \<open>Modelled from the spec: bit 2 of the layout\<close>
  "GuestCreate = push_bit 2 1"
definition GuestUpdate :: AuthPermission where
  \<comment> \<open>Modelled from the spec: bit 3 of the layout\<close>
  "GuestUpdate = push_bit 3 1"
definition GuestDelete :: AuthPermission where
  \<comment> \<open>Modelled from the spec: bit 4 of the layout\<close>
  "GuestDelete = push_bit 4 1"
definition GuestExecute :: AuthPermission where
  \<comment> \<open>Modelled from the spec: bit 5 of the layout\<close>
  "GuestExecute = push_bit 5 1"
definition GuestRefer :: AuthPermission where
  \<comment> \<open>Modelled from the spec: bit 6 of the layout\<close>
  "GuestRefer = push_bit 6 1"
definition UserPeek :: AuthPermission where
  \<comment> \<open>Modelled from the spec: bit 7 of the layout\<close>
  "UserPeek = push_bit 7 1"
definition UserRead :: AuthPermission where
  \<comment> \<open>Modelled from the spec: bit 8 of the layout\<close>
  "UserRead = push_bit 8 1"
definition UserCreate :: AuthPermission where
  \<comment> \<open>Modelled from the spec: bit 9 of the layout\<close>
  "UserCreate = push_bit 9 1"
definition UserUpdate :: AuthPermission where
  \<comment> \<open>Modelled from the spec: bit 10 of the layout\<close>
  "UserUpdate = push_bit 10 1"
definition UserDelete :: AuthPermission where
  \<comment> \<open>Modelled from the spec: bit 11 of the layout\<close>
  "UserDelete = push_bit 11 1"
definition UserExecute :: AuthPermission where
  \<comment> \<open>Modelled from the spec: bit 12 of the layout\<close>
  "UserExecute = push_bit 12 1"
definition UserRefer :: AuthPermission where
  \<comment> \<open>Modelled from the spec: bit 13 of the layout\<close>
  "UserRefer = push_bit 13 1"
definition GroupPeek :: AuthPermission where
  \<comment> \<open>Modelled from the spec: bit 14 of the layout\<close>
  "GroupPeek = push_bit 14 1"
definition GroupRead :: AuthPermission where
  \<comment> \<open>Modelled from the spec: bit 15 of the layout\<close>
  "GroupRead = push_bit 15 1"
definition GroupCreate :: AuthPermission where
  \<comment> \<open>Modelled from the spec: bit 16 of the layout\<close>
  "GroupCreate = push_bit 16 1"
definition GroupUpdate :: AuthPermission where
  \<comment> \<open>Modelled from the spec: bit 17 of the layout\<close>
  "GroupUpdate = push_bit 17 1"
definition GroupDelete :: AuthPermission where
  \<comment> \<open>Modelled from the spec: bit 18 of the layout\<close>
  "GroupDelete = push_bit 18 1"
definition GroupExecute :: AuthPermission where
  \<comment> \<open>Modelled from the spec: bit 19 of the layout\<close>
  "GroupExecute = push_bit 19 1"
definition GroupRefer :: AuthPermission where
  \<comment> \<open>Modelled from the spec: bit 20 of the layout\<close>
  "GroupRefer = push_bit 20 1"

definition UserCRUD :: AuthPermission where
  \<comment> \<open>Modelled from the spec: \<^verbatim>\<open>UserCRUD = UserRead|UserCreate|UserUpdate|UserDelete\<close>\<close>
  "UserCRUD = UserRead OR UserCreate OR UserUpdate OR UserDelete"

definition GroupCRUD :: AuthPermission where
  \<comment> \<open>Modelled from the spec: "similarly \<^verbatim>\<open>GroupCRUD\<close>"\<close>
  "GroupCRUD = GroupRead OR GroupCreate OR GroupUpdate OR GroupDelete"

record GroupPermission =
  GroupReferenceId :: string
  ObjectReferenceId :: string
  RelationReferenceId :: string
  Permission :: AuthPermission

record PermissionInstance =
  UserId :: string
  UserGroupId :: "GroupPermission list"
  InstancePermission :: AuthPermission

definition zero_PermissionInstance :: PermissionInstance where
  \<comment> \<open>\<^verbatim>\<open>var perm PermissionInstance\<close>\<close>
  "zero_PermissionInstance = \<lparr>UserId = [], UserGroupId = [], InstancePermission = 0\<rparr>"

definition permits :: "AuthPermission \<Rightarrow> AuthPermission \<Rightarrow> bool" where
  "permits bits cap = (bits AND cap = cap)"

definition CanExecute :: "PermissionInstance \<Rightarrow> string \<Rightarrow> GroupPermission list \<Rightarrow> bool" where
  \<comment> \<open>Modelled from the spec: the access gate's \<open>allow(p, caller, Execute)\<close>: the caller is the
      owner and the owner bits permit it, or the caller shares a group with \<open>p.groups\<close> and
      that group's bits permit it, or the guest bits permit it.\<close>
  "CanExecute p userReferenceId userGroups =
     ((UserId p \<noteq> [] \<and> userReferenceId = UserId p \<and> permits (InstancePermission p) UserExecute)
      \<or> list_ex (\<lambda>g. list_ex (\<lambda>u. GroupReferenceId u = GroupReferenceId g) userGroups
                       \<and> permits (Permission g) GroupExecute) (UserGroupId p)
      \<or> permits (InstancePermission p) GuestExecute)"

section \<open>The database and the statements the code builds\<close>

text \<open>
  A table is the list of its rows in the order the database returns them; a row maps
  column names to values, \<open>VNil\<close> being SQL's \<^verbatim>\<open>NULL\<close>. Cells are typed: a cell and a
  value of another type are not equal. \<^verbatim>\<open>Preparex\<close> and \<^verbatim>\<open>Exec\<close> fail on a table that
  does not exist. The columns an \<^verbatim>\<open>INSERT\<close> does not name are left unset.

  The code reads through \<^verbatim>\<open>dbResource.Connection\<close> or through the transaction handle
  it is given. What a transaction has written is seen through that transaction only,
  until the caller commits it. \<open>BecomeAdmin\<close> reads through the one and writes through
  the other, so it is given both states; each of the other functions is given the state
  seen through the handle it reads.

  \<^verbatim>\<open>goqu.Ex{column: v}\<close> is rendered by the dynamic type of \<open>v\<close>: \<^verbatim>\<open>IS NULL\<close> for nil,
  \<^verbatim>\<open>IS TRUE\<close> or \<^verbatim>\<open>IS FALSE\<close> for a bool, \<^verbatim>\<open>IN (...)\<close> for a slice, \<^verbatim>\<open>=\<close> for the rest.
  \<^verbatim>\<open>LIKE\<close> compares ASCII letters without regard to case on sqlite and mysql, and
  exactly on postgres. \<^verbatim>\<open>Scan\<close> converts the cell to the type of its destination as
  \<^verbatim>\<open>database/sql\<close> does (\<^verbatim>\<open>convertAssign\<close>): a number, a truth value or a text into a
  \<^verbatim>\<open>*string\<close> by its text, and into an \<^verbatim>\<open>*int64\<close> or \<^verbatim>\<open>*uint64\<close> by parsing that text;
  \<^verbatim>\<open>NULL\<close> converts to neither. \<open>formatFloat\<close> is
  \<^verbatim>\<open>strconv.FormatFloat(f, 'g', -1, 64)\<close>, which is outside the sources.
\<close>

type_synonym row = gomap
type_synonym database = "string \<rightharpoonup> row list"

definition sql_eq :: "go_value \<Rightarrow> go_value \<Rightarrow> bool" where
  \<comment> \<open>\<^verbatim>\<open>a = b\<close> in a \<^verbatim>\<open>WHERE\<close> or \<^verbatim>\<open>ON\<close> clause: never true of \<^verbatim>\<open>NULL\<close>\<close>
  "sql_eq a b = (a \<noteq> VNil \<and> a = b)"

definition sql_is :: "go_value \<Rightarrow> bool \<Rightarrow> bool" where
  \<comment> \<open>\<^verbatim>\<open>a IS TRUE\<close> and \<^verbatim>\<open>a IS FALSE\<close>: of a truth value or a number, never of \<^verbatim>\<open>NULL\<close>\<close>
  "sql_is a b =
     (case a of
        VBool c \<Rightarrow> c = b
      | VInt64 i \<Rightarrow> (i \<noteq> 0) = b
      | VFloat64 f \<Rightarrow> (f \<noteq> 0) = b
      | _ \<Rightarrow> False)"

definition goqu_Ex :: "go_value \<Rightarrow> go_value \<Rightarrow> bool" where
  \<comment> \<open>\<^verbatim>\<open>goqu.Ex{column: v}\<close> on the cell \<open>a\<close> of the column\<close>
  "goqu_Ex a v =
     (case v of
        VNil \<Rightarrow> a = VNil
      | VBool b \<Rightarrow> sql_is a b
      | VStrings l \<Rightarrow> list_ex (\<lambda>s. sql_eq a (VString s)) l
      | _ \<Rightarrow> sql_eq a v)"

fun sql_like :: "string \<Rightarrow> string \<Rightarrow> bool" where
  "sql_like [] s = (s = [])"
| "sql_like (p # ps) [] = (p = CHR ''%'' \<and> sql_like ps [])"
| "sql_like (p # ps) (c # cs) =
     (if p = CHR ''%'' then sql_like ps (c # cs) \<or> sql_like (p # ps) cs
      else if p = CHR ''_'' then sql_like ps cs
      else p = c \<and> sql_like ps cs)"

definition ascii_lower :: "char \<Rightarrow> char" where
  "ascii_lower c =
     (if 65 \<le> (of_char c :: nat) \<and> (of_char c :: nat) \<le> 90
      then char_of ((of_char c :: nat) + 32) else c)"

definition LIKE :: "string \<Rightarrow> string \<Rightarrow> string \<Rightarrow> bool" where
  \<comment> \<open>\<^verbatim>\<open>s LIKE p\<close> on the engine behind the driver\<close>
  "LIKE driver s p =
     (if driver = ''postgres'' then sql_like p s
      else sql_like (map ascii_lower p) (map ascii_lower s))"

definition sql_select :: "database \<Rightarrow> string \<Rightarrow> (row \<Rightarrow> bool) \<Rightarrow> go_error + row list" where
  "sql_select db t cond =
     (case db t of None \<Rightarrow> Inl (Error ''no such table'') | Some rows \<Rightarrow> Inr (filter cond rows))"

definition sql_update ::
  "database \<Rightarrow> string \<Rightarrow> (row \<Rightarrow> bool) \<Rightarrow> (string \<times> go_value) list \<Rightarrow> go_error + database" where
  "sql_update db t cond record =
     (case db t of
        None \<Rightarrow> Inl (Error ''no such table'')
      | Some rows \<Rightarrow> Inr (db(t \<mapsto> map (\<lambda>r. if cond r then r ++ map_of record else r) rows)))"

definition sql_insert :: "database \<Rightarrow> string \<Rightarrow> (string \<times> go_value) list \<Rightarrow> go_error + database" where
  "sql_insert db t record =
     (case db t of
        None \<Rightarrow> Inl (Error ''no such table'')
      | Some rows \<Rightarrow> Inr (db(t \<mapsto> rows @ [map_of record])))"

definition ErrNoRows :: go_error where
  "ErrNoRows = Error ''sql: no rows in result set''"

definition parsed :: "int \<times> go_error option \<Rightarrow> go_error + int" where
  \<comment> \<open>the destination is set only when the text parsed\<close>
  "parsed res = (case res of (i, None) \<Rightarrow> Inr i | (i, Some e) \<Rightarrow> Inl e)"

definition scan_string :: "(real \<Rightarrow> string) \<Rightarrow> go_value \<Rightarrow> go_error + string" where
  \<comment> \<open>\<^verbatim>\<open>Scan(&str)\<close> with \<^verbatim>\<open>var str string\<close>\<close>
  "scan_string formatFloat v =
     (case v of
        VNil \<Rightarrow> Inl (Error ''sql: Scan error: converting NULL to string is unsupported'')
      | VString s \<Rightarrow> Inr s
      | VInt64 i \<Rightarrow> Inr (FormatInt i)
      | VFloat64 f \<Rightarrow> Inr (formatFloat f)
      | VBool b \<Rightarrow> Inr (if b then ''true'' else ''false'')
      | VStrings l \<Rightarrow> Inl (Error ''sql: Scan error: unsupported Scan''))"

definition scan_int64 :: "(real \<Rightarrow> string) \<Rightarrow> go_value \<Rightarrow> go_error + int" where
  \<comment> \<open>\<^verbatim>\<open>Scan(&id)\<close> with \<^verbatim>\<open>var id int64\<close>\<close>
  "scan_int64 formatFloat v =
     (case v of
        VNil \<Rightarrow> Inl (Error ''sql: Scan error: converting NULL to int64 is unsupported'')
      | VString s \<Rightarrow> parsed (ParseInt s)
      | VInt64 i \<Rightarrow> Inr i
      | VFloat64 f \<Rightarrow> parsed (ParseInt (formatFloat f))
      | VBool b \<Rightarrow> parsed (ParseInt (if b then ''true'' else ''false''))
      | VStrings l \<Rightarrow> Inl (Error ''sql: Scan error: unsupported Scan''))"

definition scan_uint64 :: "(real \<Rightarrow> string) \<Rightarrow> go_value \<Rightarrow> go_error + int" where
  \<comment> \<open>\<^verbatim>\<open>Scan(&id)\<close> with \<^verbatim>\<open>var id uint64\<close>\<close>
  "scan_uint64 formatFloat v =
     (case v of
        VNil \<Rightarrow> Inl (Error ''sql: Scan error: converting NULL to uint64 is unsupported'')
      | VString s \<Rightarrow> parsed (ParseUint s)
      | VInt64 i \<Rightarrow>
          \<comment> \<open>the text of an \<^verbatim>\<open>int64\<close> parses as unsigned exactly when it has no sign\<close>
          if 0 \<le> i then Inr i else Inl (Error ''sql: Scan error: invalid syntax'')
      | VFloat64 f \<Rightarrow> parsed (ParseUint (formatFloat f))
      | VBool b \<Rightarrow> parsed (ParseUint (if b then ''true'' else ''false''))
      | VStrings l \<Rightarrow> Inl (Error ''sql: Scan error: unsupported Scan''))"

section \<open>The cache\<close>

text \<open>
  \<^verbatim>\<open>OlricCache\<close> is a package variable: a nil pointer, or a distributed map from keys to
  values stored with a time to live (\<^verbatim>\<open>OlricDb\<close>, a field of the resource, is what
  \<^verbatim>\<open>NewDMap("default-cache")\<close> hands out, nothing when it fails).
  \<^verbatim>\<open>PutIfEx(k, v, ttl, olric.IfNotFound)\<close> stores
  only under a key that is not there and reports a key that is. Durations are
  nanoseconds, as \<^verbatim>\<open>time.Duration\<close>.
\<close>

datatype cached =
    CString string
  | CInt64 int
  | CPermission PermissionInstance
  | CGroups "GroupPermission list"

type_synonym duration = int
type_synonym cache = "string \<rightharpoonup> cached \<times> duration"

definition Second :: duration where "Second = 1000000000"
definition Minute :: duration where "Minute = 60 * Second"
definition Hour :: duration where "Hour = 60 * Minute"

definition PutIfEx :: "cache \<Rightarrow> string \<Rightarrow> cached \<Rightarrow> duration \<Rightarrow> cache \<times> go_error option" where
  "PutIfEx c k v ttl =
     (case c k of None \<Rightarrow> (c(k \<mapsto> (v, ttl)), None) | Some e \<Rightarrow> (c, Some (Error ''key found'')))"

section \<open>server/id/id.go: the resource\<close>

text \<open>
  \<^verbatim>\<open>dbResource.Cruds\<close> maps a key to the resource of a table; what the code asks of
  such a resource is its \<^verbatim>\<open>model\<close>: the name, the columns, the default permission and
  the objects of the has-many relations. The map is a list here: the loop of
  \<^verbatim>\<open>BecomeAdmin\<close> visits it in some order. Of the resource itself the code reads the
  \<^verbatim>\<open>model\<close>, the table name and the relations of \<^verbatim>\<open>tableInfo\<close>, and the driver name of
  the connection. \<^verbatim>\<open>auth.DEFAULT_PERMISSION\<close> is a constant of the missing package and a
  field of the record.

  \<open>cell_pass\<close> is the first loop of \<^verbatim>\<open>ResultToArrayOfMap\<close> over the cells of one row
  (lines 3364 to 3497: parsing of \<^verbatim>\<open>datetime\<close> cells, foreign keys turned into
  reference ids, cloud-store file lists): its time parsers, JSON decoder and file reads
  are outside the sources, so the pass is a field of the record. It is given the name of
  the resource that runs it, the table whose column map it is given and the include
  map, and returns the row and the objects to include, or the error the function
  returns at once. \<open>cell_pass_tx\<close> is the same loop of
  \<^verbatim>\<open>ResultToArrayOfMapWithTransaction\<close>, and \<open>FormatFloat\<close> is
  \<^verbatim>\<open>strconv.FormatFloat(f, 'g', -1, 64)\<close>, the text of a \<^verbatim>\<open>float64\<close> that \<^verbatim>\<open>Scan\<close> and the
  verb \<^verbatim>\<open>%v\<close> of \<^verbatim>\<open>fmt\<close> both produce.
\<close>

record TableModel =
  GetName :: string
  ColumnNames :: "string list"
  GetDefaultPermission :: AuthPermission
  HasManyObjects :: "string list"

definition HasColumn :: "TableModel \<Rightarrow> string \<Rightarrow> bool" where
  "HasColumn m c = (c \<in> set (ColumnNames m))"

definition HasMany :: "TableModel \<Rightarrow> string \<Rightarrow> bool" where
  "HasMany m obj = (obj \<in> set (HasManyObjects m))"

record TableRelation =
  Subject :: string
  Object :: string
  Relation :: string
  SubjectName :: string
  ObjectName :: string

type_synonym include_map = "string \<rightharpoonup> bool"

record DbResource =
  Cruds :: "(string \<times> TableModel) list"
  DEFAULT_PERMISSION :: AuthPermission
  OlricDb :: "cache option"
  model :: TableModel
  TableName :: string
  Relations :: "TableRelation list"
  DriverName :: string
  cell_pass :: "string \<Rightarrow> string \<Rightarrow> include_map \<Rightarrow> cache option \<Rightarrow> database \<Rightarrow> row
                  \<Rightarrow> ((go_error + row \<times> row list) \<times> cache option) outcome"
  cell_pass_tx :: "string \<Rightarrow> string \<Rightarrow> include_map \<Rightarrow> cache option \<Rightarrow> database \<Rightarrow> row
                  \<Rightarrow> ((go_error + row \<times> row list) \<times> cache option) outcome"
  FormatFloat :: "real \<Rightarrow> string"

section \<open>server/id/id.go: identity resolution\<close>

text \<open>
  The four lookups between the integer \<^verbatim>\<open>id\<close> and the textual \<^verbatim>\<open>reference_id\<close> of a
  row. Each takes its receiver, the cache variable and the database and returns its two
  results with the cache variable afterwards. \<^verbatim>\<open>QueryRowx(...).Scan(&x)\<close> reads the first row of the
  result and leaves \<open>x\<close> at its zero value when there is none or the scan fails. A
  cached value of another dynamic type makes the type assertion panic.
\<close>

definition itr_key :: "string \<Rightarrow> int \<Rightarrow> string" where
  \<comment> \<open>\<^verbatim>\<open>fmt.Sprintf("itr-%v-%v", typeName, id)\<close>\<close>
  "itr_key typeName id' = ''itr-'' @ typeName @ ''-'' @ FormatInt id'"

definition riti_key :: "string \<Rightarrow> string \<Rightarrow> string" where
  \<comment> \<open>\<^verbatim>\<open>fmt.Sprintf("riti-%v-%v", typeName, referenceId)\<close>\<close>
  "riti_key typeName referenceId = ''riti-'' @ typeName @ ''-'' @ referenceId"

definition cache_Get :: "cache option \<Rightarrow> string \<Rightarrow> (cached \<times> duration) option" where
  \<comment> \<open>\<^verbatim>\<open>if OlricCache != nil { v, err := OlricCache.Get(k); if err == nil ...\<close>\<close>
  "cache_Get OlricCache k = (case OlricCache of None \<Rightarrow> None | Some c \<Rightarrow> c k)"

definition QueryRowx_Scan ::
  "row list \<Rightarrow> string \<Rightarrow> (go_value \<Rightarrow> go_error + 'a) \<Rightarrow> 'a \<Rightarrow> 'a \<times> go_error option" where
  "QueryRowx_Scan rows col scan zero =
     (case rows of
        [] \<Rightarrow> (zero, Some ErrNoRows)
      | r # _ \<Rightarrow>
          (case scan (index_map r col) of Inl e \<Rightarrow> (zero, Some e) | Inr v \<Rightarrow> (v, None)))"

definition GetIdToReferenceId ::
  "DbResource \<Rightarrow> cache option \<Rightarrow> database \<Rightarrow> string \<Rightarrow> int
     \<Rightarrow> ((string \<times> go_error option) \<times> cache option) outcome" where
  "GetIdToReferenceId dbResource OlricCache db typeName id' =
     (let k = itr_key typeName id'
      in case cache_Get OlricCache k of
           Some (v, ttl) \<Rightarrow>
             (case v of
                CString s \<Rightarrow> Returned ((s, None), OlricCache)
              | _ \<Rightarrow> Panic ''interface conversion: interface {} is not string'')
         | None \<Rightarrow>
             (case sql_select db typeName (\<lambda>r. sql_eq (index_map r ''id'') (VInt64 id')) of
                Inl e \<Rightarrow> Returned (([], Some e), OlricCache)
              | Inr rows \<Rightarrow>
                  (let (str, err) = QueryRowx_Scan rows ''reference_id'' (scan_string (FormatFloat dbResource)) []
                   in case OlricCache of
                        None \<Rightarrow> Returned ((str, err), None)
                      | Some c \<Rightarrow>
                          Returned ((str, err),
                            Some (fst (PutIfEx c k (CString str) (1 * Minute)))))))"

definition GetIdToReferenceIdWithTransaction ::
  "DbResource \<Rightarrow> cache option \<Rightarrow> database \<Rightarrow> string \<Rightarrow> int
     \<Rightarrow> ((string \<times> go_error option) \<times> cache option) outcome" where
  \<comment> \<open>here the result of \<^verbatim>\<open>PutIfEx\<close> is assigned to \<^verbatim>\<open>err\<close>, which is returned\<close>
  "GetIdToReferenceIdWithTransaction dbResource OlricCache db typeName id' =
     (let k = itr_key typeName id'
      in case cache_Get OlricCache k of
           Some (v, ttl) \<Rightarrow>
             (case v of
                CString s \<Rightarrow> Returned ((s, None), OlricCache)
              | _ \<Rightarrow> Panic ''interface conversion: interface {} is not string'')
         | None \<Rightarrow>
             (case sql_select db typeName (\<lambda>r. sql_eq (index_map r ''id'') (VInt64 id')) of
                Inl e \<Rightarrow> Returned (([], Some e), OlricCache)
              | Inr rows \<Rightarrow>
                  (let (str, err) = QueryRowx_Scan rows ''reference_id'' (scan_string (FormatFloat dbResource)) []
                   in case OlricCache of
                        None \<Rightarrow> Returned ((str, err), None)
                      | Some c \<Rightarrow>
                          (let (c', err) = PutIfEx c k (CString str) (5 * Minute)
                           in Returned ((str, err), Some c')))))"

definition GetReferenceIdToId ::
  "DbResource \<Rightarrow> cache option \<Rightarrow> database \<Rightarrow> string \<Rightarrow> string
     \<Rightarrow> ((int \<times> go_error option) \<times> cache option) outcome" where
  "GetReferenceIdToId dbResource OlricCache db typeName referenceId =
     (let cacheKey = riti_key typeName referenceId
      in case cache_Get OlricCache cacheKey of
           Some (cachedValue, ttl) \<Rightarrow>
             (case cachedValue of
                CInt64 i \<Rightarrow> Returned ((i, None), OlricCache)
              | _ \<Rightarrow> Panic ''interface conversion: interface {} is not int64'')
         | None \<Rightarrow>
             (case sql_select db typeName
                     (\<lambda>r. sql_eq (index_map r ''reference_id'') (VString referenceId)) of
                Inl e \<Rightarrow> Returned ((0, Some e), OlricCache)
              | Inr rows \<Rightarrow>
                  (let (id', err) = QueryRowx_Scan rows ''id'' (scan_int64 (FormatFloat dbResource)) 0
                   in case OlricCache of
                        None \<Rightarrow> Returned ((id', err), None)
                      | Some c \<Rightarrow>
                          Returned ((id', err),
                            Some (fst (PutIfEx c cacheKey (CInt64 id') (5 * Minute)))))))"

definition GetReferenceIdToIdWithTransaction ::
  "DbResource \<Rightarrow> cache option \<Rightarrow> database \<Rightarrow> string \<Rightarrow> string
     \<Rightarrow> ((int \<times> go_error option) \<times> cache option) outcome" where
  \<comment> \<open>the guard \<^verbatim>\<open>cachedValue != nil && cachedValue != 0\<close> compares an interface value with
      the \<^verbatim>\<open>int\<close> constant 0, which no cached \<^verbatim>\<open>int64\<close> equals; the value is stored only
      when the scan succeeded\<close>
  "GetReferenceIdToIdWithTransaction dbResource OlricCache db typeName referenceId =
     (let cacheKey = riti_key typeName referenceId
      in case cache_Get OlricCache cacheKey of
           Some (cachedValue, ttl) \<Rightarrow>
             (case cachedValue of
                CInt64 i \<Rightarrow> Returned ((i, None), OlricCache)
              | _ \<Rightarrow> Panic ''interface conversion: interface {} is not int64'')
         | None \<Rightarrow>
             (case sql_select db typeName
                     (\<lambda>r. sql_eq (index_map r ''reference_id'') (VString referenceId)) of
                Inl e \<Rightarrow> Returned ((0, Some e), OlricCache)
              | Inr rows \<Rightarrow>
                  (let (id', err) = QueryRowx_Scan rows ''id'' (scan_int64 (FormatFloat dbResource)) 0
                   in case OlricCache of
                        None \<Rightarrow> Returned ((id', err), None)
                      | Some c \<Rightarrow>
                          (if err = None
                           then Returned ((id', err),
                                  Some (fst (PutIfEx c cacheKey (CInt64 id') (1 * Hour))))
                           else Returned ((id', err), Some c)))))"

text \<open>
  What the round trip needs of a table and of the cache. The data model has \<^verbatim>\<open>id\<close> as
  the primary key and \<^verbatim>\<open>reference_id\<close> unique within the table. An entry of the cache
  agrees with the table when the key is absent or holds the value the table has.
\<close>

definition is_id_row :: "row \<Rightarrow> bool" where
  "is_id_row r =
     ((case r ''id'' of Some (VInt64 i) \<Rightarrow> True | _ \<Rightarrow> False)
      \<and> (case r ''reference_id'' of Some (VString s) \<Rightarrow> True | _ \<Rightarrow> False))"

definition keyed_table :: "row list \<Rightarrow> bool" where
  "keyed_table rows =
     (list_all is_id_row rows
      \<and> distinct (map (\<lambda>r. r ''id'') rows)
      \<and> distinct (map (\<lambda>r. r ''reference_id'') rows))"

definition cache_agrees :: "cache option \<Rightarrow> string \<Rightarrow> cached \<Rightarrow> bool" where
  "cache_agrees OlricCache k v =
     (case cache_Get OlricCache k of None \<Rightarrow> True | Some (v', ttl) \<Rightarrow> v' = v)"

definition stored_with :: "cache option \<Rightarrow> cache option \<Rightarrow> string \<Rightarrow> duration \<Rightarrow> bool" where
  \<comment> \<open>the call left the cache as it was, or stored one entry, under \<open>k\<close> with \<open>ttl\<close>\<close>
  "stored_with before after k ttl =
     (after = before
      \<or> (\<exists>c v. before = Some c \<and> c k = None \<and> after = Some (c(k \<mapsto> (v, ttl)))))"

section \<open>server/id/id.go: becoming the administrator\<close>

text \<open>
  \<open>CanBecomeAdmin\<close> takes no transaction: it reads through the connection of the
  resource. \<open>BecomeAdmin\<close> calls it first and then writes through the transaction it is
  given, which its caller commits or rolls back. \<^verbatim>\<open>created_at\<close> is a number, the time
  stamp.
\<close>

definition USER_ACCOUNT_ID_COLUMN :: string where
  "USER_ACCOUNT_ID_COLUMN = ''user_account_id''"

definition USER_ACCOUNT_TABLE_NAME :: string where
  "USER_ACCOUNT_TABLE_NAME = ''user_account''"

definition usergroup_join_table :: string where
  "usergroup_join_table = ''user_account_user_account_id_has_usergroup_usergroup_id''"

definition created_at :: "row \<Rightarrow> int" where
  "created_at r = (case index_map r ''created_at'' of VInt64 t \<Rightarrow> t | _ \<Rightarrow> 0)"

definition GetUserMembersByGroupName ::
  "DbResource \<Rightarrow> database \<Rightarrow> string \<Rightarrow> string list option" where
  \<comment> \<open>\<^verbatim>\<open>SELECT u.reference_id FROM <join> uu LEFT JOIN user_account u ON uu.user_account_id = u.id
      LEFT JOIN usergroup g ON uu.usergroup_id = g.id WHERE g.name = ? ORDER BY uu.created_at\<close>;
      \<open>None\<close> is the nil slice returned when \<^verbatim>\<open>Preparex\<close> fails; a reference id that does not
      scan is appended as the empty string\<close>
  "GetUserMembersByGroupName dbResource db groupName =
     (case (db usergroup_join_table, db ''user_account'', db ''usergroup'') of
        (Some uus, Some us, Some gs) \<Rightarrow>
          Some (concat (map
            (\<lambda>uu.
               let joined = filter (\<lambda>u. sql_eq (index_map uu ''user_account_id'') (index_map u ''id'')) us;
                   joined_u = (if joined = [] then [Map.empty] else joined);
                   joined_g = filter (\<lambda>g. sql_eq (index_map uu ''usergroup_id'') (index_map g ''id'')
                                         \<and> sql_eq (index_map g ''name'') (VString groupName)) gs
               in concat (map
                    (\<lambda>u. map (\<lambda>g. case scan_string (FormatFloat dbResource)
                                           (index_map u ''reference_id'') of
                                      Inl e \<Rightarrow> [] | Inr refId \<Rightarrow> refId) joined_g)
                    joined_u))
            (sort_key created_at uus)))
      | _ \<Rightarrow> None)"

definition GetAdminReferenceId :: "DbResource \<Rightarrow> database \<Rightarrow> string list option" where
  \<comment> \<open>Modelled from the spec: \<^verbatim>\<open>GetAdminReferenceId\<close> is not among the sources.
      \<open>canBecomeAdmin()\<close> returns true iff no row exists in the membership table of
      \<^verbatim>\<open>administrators\<close>; the members are read as the repository's own
      \<open>GetUserMembersByGroupName\<close> reads them.\<close>
  "GetAdminReferenceId dbResource db = GetUserMembersByGroupName dbResource db ''administrators''"

definition CanBecomeAdmin :: "DbResource \<Rightarrow> database \<Rightarrow> bool" where
  \<comment> \<open>\<open>db\<close> is the state seen through \<^verbatim>\<open>dbResource.Connection\<close>\<close>
  "CanBecomeAdmin dbResource db =
     (let adminRefId = GetAdminReferenceId dbResource db
      in case adminRefId of None \<Rightarrow> True | Some refs \<Rightarrow> if length refs = 0 then True else False)"

definition UserGroupNameToIdWithTransaction ::
  "DbResource \<Rightarrow> database \<Rightarrow> string \<Rightarrow> int \<times> go_error option" where
  "UserGroupNameToIdWithTransaction dbResource db groupName =
     (case sql_select db ''usergroup'' (\<lambda>r. sql_eq (index_map r ''name'') (VString groupName)) of
        Inl e \<Rightarrow> (0, Some e)
      | Inr rows \<Rightarrow> QueryRowx_Scan rows ''id'' (scan_uint64 (FormatFloat dbResource)) 0)"

definition own_rows :: "DbResource \<Rightarrow> int \<Rightarrow> TableModel \<Rightarrow> database \<Rightarrow> database" where
  \<comment> \<open>the body of the loop over \<^verbatim>\<open>dbResource.Cruds\<close>: a failed update is logged and skipped\<close>
  "own_rows dbResource userId crud_model db =
     (if GetName crud_model = ''user_account_user_account_id_has_usergroup_usergroup_id'' then db
      else if HasColumn crud_model USER_ACCOUNT_ID_COLUMN then
        (case sql_update db (GetName crud_model) (\<lambda>r. True)
                [(USER_ACCOUNT_ID_COLUMN, VInt64 userId),
                 (''permission'', VInt64 (DEFAULT_PERMISSION dbResource))] of
           Inl e \<Rightarrow> db
         | Inr db' \<Rightarrow> db')
      else db)"

definition is_audit_table :: "DbResource \<Rightarrow> row \<Rightarrow> bool" where
  \<comment> \<open>\<^verbatim>\<open>table_name LIKE '%_audit'\<close>\<close>
  "is_audit_table dbResource r =
     (case index_map r ''table_name'' of
        VString n \<Rightarrow> LIKE (DriverName dbResource) n ''%_audit''
      | _ \<Rightarrow> False)"

definition not_audit_table :: "DbResource \<Rightarrow> row \<Rightarrow> bool" where
  \<comment> \<open>\<^verbatim>\<open>table_name NOT LIKE '%_audit'\<close>: not true of \<^verbatim>\<open>NULL\<close> either\<close>
  "not_audit_table dbResource r =
     (case index_map r ''table_name'' of
        VString n \<Rightarrow> \<not> LIKE (DriverName dbResource) n ''%_audit''
      | _ \<Rightarrow> False)"

definition exec_logged :: "database \<Rightarrow> go_error + database \<Rightarrow> database" where
  \<comment> \<open>\<^verbatim>\<open>_, err = transaction.Exec(...)\<close> whose error is only logged\<close>
  "exec_logged db res = (case res of Inl e \<Rightarrow> db | Inr db' \<Rightarrow> db')"

definition BecomeAdmin ::
  "DbResource \<Rightarrow> database \<Rightarrow> database \<Rightarrow> string \<Rightarrow> int \<Rightarrow> bool \<times> database" where
  \<comment> \<open>\<open>connection\<close> is the state seen through \<^verbatim>\<open>dbResource.Connection\<close>, \<open>transaction\<close> the
      state seen through the transaction; the second component is the latter after the
      call. \<open>reference_id\<close> is what \<^verbatim>\<open>uuid.NewV4()\<close> returns. The error of the group lookup
      is overwritten by the next assignment to \<^verbatim>\<open>err\<close>.\<close>
  "BecomeAdmin dbResource connection transaction reference_id userId =
     (if \<not> CanBecomeAdmin dbResource connection then (False, transaction)
      else
        let db1 = fold (own_rows dbResource userId) (map snd (Cruds dbResource)) transaction;
            (adminUsergroupId, err) =
              UserGroupNameToIdWithTransaction dbResource db1 ''administrators''
        in case sql_insert db1 ''user_account_user_account_id_has_usergroup_usergroup_id''
                  [(USER_ACCOUNT_ID_COLUMN, VInt64 userId),
                   (''usergroup_id'', VInt64 adminUsergroupId),
                   (''permission'', VInt64 (DEFAULT_PERMISSION dbResource)),
                   (''reference_id'', VString reference_id)] of
             Inl e \<Rightarrow> (False, db1)
           | Inr db2 \<Rightarrow>
               (case sql_update db2 ''world'' (not_audit_table dbResource)
                       [(''permission'', VInt64 (DEFAULT_PERMISSION dbResource)),
                        (''default_permission'', VInt64 (DEFAULT_PERMISSION dbResource))] of
                  Inl e \<Rightarrow> (False, db2)
                | Inr db3 \<Rightarrow>
                    (let db4 = exec_logged db3
                           (sql_update db3 ''world'' (is_audit_table dbResource)
                              [(''permission'', VInt64 (UserCreate OR GroupCreate)),
                               (''default_permission'', VInt64 (UserRead OR GroupRead))]);
                         db5 = exec_logged db4
                           (sql_update db4 ''action'' (\<lambda>r. True)
                              [(''permission'',
                                VInt64 (UserRead OR UserExecute OR GroupCRUD OR GroupExecute
                                        OR GroupRefer))]);
                         db6 = exec_logged db5
                           (sql_update db5 ''action''
                              (\<lambda>r. sql_eq (index_map r ''action_name'') (VString ''signin''))
                              [(''permission'',
                                VInt64 (GuestPeek OR GuestExecute OR UserRead OR UserExecute
                                        OR GroupRead OR GroupExecute))])
                     in (True, db6))))"

text \<open>
  The helper of the proofs about the loop: a function on rows that leaves every column
  but \<^verbatim>\<open>user_account_id\<close> and \<^verbatim>\<open>permission\<close> as it is. Then scenario S1 of the
  specification: one user, the \<^verbatim>\<open>administrators\<close> group, no member yet; and the same
  database before the group was created.
\<close>

definition keeps_columns :: "(row \<Rightarrow> row) \<Rightarrow> bool" where
  "keeps_columns f = (\<forall>r c. c \<noteq> ''user_account_id'' \<and> c \<noteq> ''permission'' \<longrightarrow> f r c = r c)"

definition S1_db :: database where
  "S1_db =
     [''user_account'' \<mapsto> [[''id'' \<mapsto> VInt64 1, ''reference_id'' \<mapsto> VString ''u-1'',
                             ''email'' \<mapsto> VString ''a@x'']],
      ''usergroup'' \<mapsto> [[''id'' \<mapsto> VInt64 2, ''reference_id'' \<mapsto> VString ''g-2'',
                          ''name'' \<mapsto> VString ''administrators'']],
      ''user_account_user_account_id_has_usergroup_usergroup_id'' \<mapsto> [],
      ''world'' \<mapsto> [[''table_name'' \<mapsto> VString ''blog''],
                      [''table_name'' \<mapsto> VString ''blog_audit'']],
      ''action'' \<mapsto> [[''action_name'' \<mapsto> VString ''signin''],
                       [''action_name'' \<mapsto> VString ''publish'']]]"

definition S1_no_group :: database where
  "S1_no_group = S1_db(''usergroup'' \<mapsto> [])"

definition S1_resource :: DbResource where
  "S1_resource =
     \<lparr>Cruds = [(''usergroup'',
                \<lparr>GetName = ''usergroup'',
                 ColumnNames = [''id'', ''reference_id'', ''name'', ''user_account_id'', ''permission''],
                 GetDefaultPermission = 0, HasManyObjects = []\<rparr>)],
      DEFAULT_PERMISSION = 7, OlricDb = None,
      model = \<lparr>GetName = ''world'', ColumnNames = [], GetDefaultPermission = 0, HasManyObjects = []\<rparr>,
      TableName = ''world'', Relations = [], DriverName = ''sqlite3'',
      cell_pass = (\<lambda>resource columns included OlricCache db r. Returned (Inr (r, []), OlricCache)),
      cell_pass_tx = (\<lambda>resource columns included OlricCache db r. Returned (Inr (r, []), OlricCache)),
      FormatFloat = (\<lambda>f. [])\<rparr>"

section \<open>server/id/id.go: the permission of an object and the action gate\<close>

text \<open>
  The functions below thread the cache variable and may panic on a type assertion;
  \<open>and_then\<close> runs the rest of a function on what a call returned. A column that a row
  does not have reads as \<^verbatim>\<open>NULL\<close>. \<^verbatim>\<open>StructScan\<close> fills the fields of a
  \<open>GroupPermission\<close> in the order of the columns and stops at the first that fails.
\<close>

definition and_then :: "'a outcome \<Rightarrow> ('a \<Rightarrow> 'b outcome) \<Rightarrow> 'b outcome" where
  "and_then m f = (case m of Panic msg \<Rightarrow> Panic msg | Returned x \<Rightarrow> f x)"

definition assert_int64 :: "go_value \<Rightarrow> int outcome" where
  \<comment> \<open>\<^verbatim>\<open>v.(int64)\<close>\<close>
  "assert_int64 v =
     (case v of VInt64 i \<Rightarrow> Returned i
      | _ \<Rightarrow> Panic ''interface conversion: interface {} is not int64'')"

definition zero_GroupPermission :: GroupPermission where
  "zero_GroupPermission =
     \<lparr>GroupReferenceId = [], ObjectReferenceId = [], RelationReferenceId = [], Permission = 0\<rparr>"

definition StructScan_GroupPermission ::
  "(real \<Rightarrow> string) \<Rightarrow> go_value \<Rightarrow> go_value \<Rightarrow> go_value \<Rightarrow> GroupPermission" where
  "StructScan_GroupPermission formatFloat groupreferenceid relationreferenceid permission =
     (case scan_string formatFloat groupreferenceid of
        Inl e \<Rightarrow> zero_GroupPermission
      | Inr g \<Rightarrow>
          (case scan_string formatFloat relationreferenceid of
             Inl e \<Rightarrow> zero_GroupPermission\<lparr>GroupReferenceId := g\<rparr>
           | Inr r \<Rightarrow>
               (case scan_int64 formatFloat permission of
                  Inl e \<Rightarrow> zero_GroupPermission\<lparr>GroupReferenceId := g, RelationReferenceId := r\<rparr>
                | Inr p \<Rightarrow>
                    zero_GroupPermission
                      \<lparr>GroupReferenceId := g, RelationReferenceId := r, Permission := p\<rparr>)))"

definition object_groups_query ::
  "DbResource \<Rightarrow> database \<Rightarrow> string \<Rightarrow> int \<Rightarrow> go_error + GroupPermission list" where
  \<comment> \<open>\<^verbatim>\<open>SELECT ug.reference_id, uug.reference_id, uug.permission FROM usergroup ug
      JOIN <t>_<t>_id_has_usergroup_usergroup_id uug ON uug.usergroup_id = ug.id
      WHERE uug.<t>_id = ?\<close>, each row scanned into a \<open>GroupPermission\<close>\<close>
  "object_groups_query dbResource db objType objectId =
     (case (db ''usergroup'', db (objType @ ''_'' @ objType @ ''_id_has_usergroup_usergroup_id'')) of
        (Some ugs, Some uugs) \<Rightarrow>
          Inr (concat (map
            (\<lambda>ug. map (\<lambda>uug. StructScan_GroupPermission (FormatFloat dbResource)
                                 (index_map ug ''reference_id'')
                                 (index_map uug ''reference_id'') (index_map uug ''permission''))
                    (filter (\<lambda>uug. sql_eq (index_map uug ''usergroup_id'') (index_map ug ''id'')
                                    \<and> sql_eq (index_map uug (objType @ ''_id'')) (VInt64 objectId))
                       uugs))
            ugs))
      | _ \<Rightarrow> Inl (Error ''no such table''))"

definition GetObjectGroupsByObjectId ::
  "DbResource \<Rightarrow> cache option \<Rightarrow> database \<Rightarrow> string \<Rightarrow> int
     \<Rightarrow> (GroupPermission list \<times> cache option) outcome" where
  "GetObjectGroupsByObjectId dbResource OlricCache db objType objectId =
     and_then (GetIdToReferenceId dbResource OlricCache db objType objectId) (\<lambda>((refId, err), OlricCache).
       if objType = ''usergroup'' then
         (if err \<noteq> None then Returned ([], OlricCache)
          else case map_of (Cruds dbResource) ''usergroup'' of
                 None \<Rightarrow> Panic ''invalid memory address or nil pointer dereference''
               | Some crud \<Rightarrow>
                   Returned ([\<lparr>GroupReferenceId = refId, ObjectReferenceId = refId,
                               RelationReferenceId = refId,
                               Permission = GetDefaultPermission crud\<rparr>], OlricCache))
       else
         (case object_groups_query dbResource db objType objectId of
            Inl e \<Rightarrow> Returned ([], OlricCache)
          | Inr gs \<Rightarrow> Returned (map (\<lambda>g. g\<lparr>ObjectReferenceId := refId\<rparr>) gs, OlricCache)))"

definition GetObjectGroupsByObjectIdWithTransaction ::
  "DbResource \<Rightarrow> cache option \<Rightarrow> database \<Rightarrow> string \<Rightarrow> int
     \<Rightarrow> (GroupPermission list \<times> cache option) outcome" where
  "GetObjectGroupsByObjectIdWithTransaction dbResource OlricCache db objectType objectId =
     (let cacheKey = ''object-groups-'' @ objectType @ ''-'' @ FormatInt objectId
      in case cache_Get OlricCache cacheKey of
           Some (cachedValue, ttl) \<Rightarrow>
             (case cachedValue of
                CGroups gs \<Rightarrow> Returned (gs, OlricCache)
              | _ \<Rightarrow> Panic ''interface conversion: interface {} is not []auth.GroupPermission'')
         | None \<Rightarrow>
             and_then (GetIdToReferenceIdWithTransaction dbResource OlricCache db objectType objectId)
               (\<lambda>((refId, err), OlricCache).
                  if objectType = ''usergroup'' then
                    (if err \<noteq> None then Returned ([], OlricCache)
                     else Returned ([\<lparr>GroupReferenceId = refId, ObjectReferenceId = refId,
                                      RelationReferenceId = refId,
                                      Permission = DEFAULT_PERMISSION dbResource\<rparr>], OlricCache))
                  else
                    (case object_groups_query dbResource db objectType objectId of
                       Inl e \<Rightarrow> Returned ([], OlricCache)
                     | Inr gs \<Rightarrow>
                         (let s = map (\<lambda>g. g\<lparr>ObjectReferenceId := refId\<rparr>) gs
                          in case OlricCache of
                               None \<Rightarrow> Returned (s, None)
                             | Some c \<Rightarrow>
                                 Returned (s, Some (fst (PutIfEx c cacheKey (CGroups s)
                                                           (30 * Second))))))))"

definition lazy_OlricCache :: "DbResource \<Rightarrow> cache option \<Rightarrow> cache option" where
  \<comment> \<open>\<^verbatim>\<open>if OlricCache == nil { OlricCache, _ = dbResource.OlricDb.NewDMap("default-cache") }\<close>\<close>
  "lazy_OlricCache dbResource OlricCache =
     (case OlricCache of None \<Rightarrow> OlricDb dbResource | Some c \<Rightarrow> Some c)"

definition GetObjectPermissionByWhereClause ::
  "DbResource \<Rightarrow> cache option \<Rightarrow> database \<Rightarrow> string \<Rightarrow> string \<Rightarrow> string
     \<Rightarrow> (PermissionInstance \<times> cache option) outcome" where
  "GetObjectPermissionByWhereClause dbResource OlricCache0 db objectType colName colValue =
     (let OlricCache = lazy_OlricCache dbResource OlricCache0;
          cacheKey = objectType @ ''_'' @ colName @ ''_'' @ colValue
      in case cache_Get OlricCache cacheKey of
           Some (cachedPermission, ttl) \<Rightarrow>
             (case cachedPermission of
                CPermission p \<Rightarrow> Returned (p, OlricCache)
              | _ \<Rightarrow> Panic ''interface conversion: interface {} is not PermissionInstance'')
         | None \<Rightarrow>
             (case sql_select db objectType (\<lambda>r. sql_eq (index_map r colName) (VString colValue)) of
                Inl e \<Rightarrow> Returned (zero_PermissionInstance, OlricCache)
              | Inr [] \<Rightarrow> Returned (zero_PermissionInstance, OlricCache)
              | Inr (m # _) \<Rightarrow>
                  and_then
                    (if index_map m ''user_account_id'' \<noteq> VNil then
                       and_then (assert_int64 (index_map m USER_ACCOUNT_ID_COLUMN)) (\<lambda>uid.
                       and_then (GetIdToReferenceId dbResource OlricCache db USER_ACCOUNT_TABLE_NAME uid)
                         (\<lambda>((user, err), OlricCache).
                            Returned (if err = None then user else [], OlricCache)))
                     else Returned ([], OlricCache))
                    (\<lambda>(UserId', OlricCache).
                  and_then (assert_int64 (index_map m ''id'')) (\<lambda>oid.
                  and_then (GetObjectGroupsByObjectId dbResource OlricCache db objectType oid)
                    (\<lambda>(groups, OlricCache).
                  and_then (assert_int64 (index_map m ''permission'')) (\<lambda>permission.
                    (let perm = \<lparr>UserId = UserId', UserGroupId = groups,
                                 InstancePermission = permission\<rparr>
                     in case OlricCache of
                          None \<Rightarrow> Returned (perm, None)
                        | Some c \<Rightarrow>
                            Returned (perm, Some (fst (PutIfEx c cacheKey (CPermission perm)
                                                         (10 * Second)))))))))))"

definition GetObjectPermissionByWhereClauseWithTransaction ::
  "DbResource \<Rightarrow> cache option \<Rightarrow> database \<Rightarrow> string \<Rightarrow> string \<Rightarrow> string
     \<Rightarrow> (PermissionInstance \<times> cache option) outcome" where
  "GetObjectPermissionByWhereClauseWithTransaction dbResource OlricCache0 db objectType colName colValue =
     (let OlricCache = lazy_OlricCache dbResource OlricCache0;
          cacheKey = ''object-permission-'' @ objectType @ ''_'' @ colName @ ''_'' @ colValue
      in case cache_Get OlricCache cacheKey of
           Some (cachedPermission, ttl) \<Rightarrow>
             (case cachedPermission of
                CPermission p \<Rightarrow> Returned (p, OlricCache)
              | _ \<Rightarrow> Panic ''interface conversion: interface {} is not PermissionInstance'')
         | None \<Rightarrow>
             (case sql_select db objectType (\<lambda>r. sql_eq (index_map r colName) (VString colValue)) of
                Inl e \<Rightarrow> Returned (zero_PermissionInstance, OlricCache)
              | Inr [] \<Rightarrow> Returned (zero_PermissionInstance, OlricCache)
              | Inr (m # _) \<Rightarrow>
                  and_then
                    (if index_map m ''user_account_id'' \<noteq> VNil then
                       and_then (assert_int64 (index_map m USER_ACCOUNT_ID_COLUMN)) (\<lambda>uid.
                       and_then (GetIdToReferenceIdWithTransaction dbResource OlricCache db
                                   USER_ACCOUNT_TABLE_NAME uid)
                         (\<lambda>((user, err), OlricCache).
                            Returned (if err = None then user else [], OlricCache)))
                     else Returned ([], OlricCache))
                    (\<lambda>(UserId', OlricCache).
                  and_then (assert_int64 (index_map m ''id'')) (\<lambda>oid.
                  and_then (GetObjectGroupsByObjectIdWithTransaction dbResource OlricCache db
                              objectType oid)
                    (\<lambda>(groups, OlricCache).
                  and_then (assert_int64 (index_map m ''permission'')) (\<lambda>permission.
                    (let perm = \<lparr>UserId = UserId', UserGroupId = groups,
                                 InstancePermission = permission\<rparr>
                     in case OlricCache of
                          None \<Rightarrow> Returned (perm, None)
                        | Some c \<Rightarrow>
                            Returned (perm, Some (fst (PutIfEx c cacheKey (CPermission perm)
                                                         (10 * Minute)))))))))))"

definition IsUserActionAllowed ::
  "DbResource \<Rightarrow> cache option \<Rightarrow> database \<Rightarrow> string \<Rightarrow> GroupPermission list \<Rightarrow> string \<Rightarrow> string
     \<Rightarrow> (bool \<times> cache option) outcome" where
  "IsUserActionAllowed dbResource OlricCache db userReferenceId userGroups typeName actionName =
     and_then (GetObjectPermissionByWhereClause dbResource OlricCache db
                 ''world'' ''table_name'' typeName) (\<lambda>(permission, OlricCache).
     and_then (GetObjectPermissionByWhereClause dbResource OlricCache db
                 ''action'' ''action_name'' actionName) (\<lambda>(actionPermission, OlricCache).
       (let canExecuteOnType = CanExecute permission userReferenceId userGroups;
            canExecuteAction = CanExecute actionPermission userReferenceId userGroups
        in Returned (canExecuteOnType \<and> canExecuteAction, OlricCache))))"

definition IsUserActionAllowedWithTransaction ::
  "DbResource \<Rightarrow> cache option \<Rightarrow> database \<Rightarrow> string \<Rightarrow> GroupPermission list \<Rightarrow> string \<Rightarrow> string
     \<Rightarrow> (bool \<times> cache option) outcome" where
  "IsUserActionAllowedWithTransaction dbResource OlricCache db userReferenceId userGroups
       typeName actionName =
     and_then (GetObjectPermissionByWhereClauseWithTransaction dbResource OlricCache db
                 ''world'' ''table_name'' typeName) (\<lambda>(permission, OlricCache).
     and_then (GetObjectPermissionByWhereClauseWithTransaction dbResource OlricCache db
                 ''action'' ''action_name'' actionName) (\<lambda>(actionPermission, OlricCache).
       (let canExecuteOnType = CanExecute permission userReferenceId userGroups;
            canExecuteAction = CanExecute actionPermission userReferenceId userGroups
        in Returned (canExecuteOnType \<and> canExecuteAction, OlricCache))))"

text \<open>
  Scenario S2 of the specification: the type \<^verbatim>\<open>blog\<close> with the permission
  \<^verbatim>\<open>UserRead|UserExecute\<close>, the action \<^verbatim>\<open>publish\<close> with a permission to choose, both
  owned by the caller \<^verbatim>\<open>u-1\<close>.
\<close>

definition S2_db :: "AuthPermission \<Rightarrow> database" where
  "S2_db actionPermission =
     [''user_account'' \<mapsto> [[''id'' \<mapsto> VInt64 1, ''reference_id'' \<mapsto> VString ''u-1'']],
      ''usergroup'' \<mapsto> [],
      ''world_world_id_has_usergroup_usergroup_id'' \<mapsto> [],
      ''action_action_id_has_usergroup_usergroup_id'' \<mapsto> [],
      ''world'' \<mapsto> [[''id'' \<mapsto> VInt64 10, ''reference_id'' \<mapsto> VString ''w-10'',
                       ''table_name'' \<mapsto> VString ''blog'', ''user_account_id'' \<mapsto> VInt64 1,
                       ''permission'' \<mapsto> VInt64 (UserRead OR UserExecute)]],
      ''action'' \<mapsto> [[''id'' \<mapsto> VInt64 20, ''reference_id'' \<mapsto> VString ''a-20'',
                        ''action_name'' \<mapsto> VString ''publish'', ''user_account_id'' \<mapsto> VInt64 1,
                        ''permission'' \<mapsto> VInt64 actionPermission]]]"

definition S2_resource :: DbResource where
  "S2_resource =
     \<lparr>Cruds = [], DEFAULT_PERMISSION = 0, OlricDb = None,
      model = \<lparr>GetName = ''world'', ColumnNames = [], GetDefaultPermission = 0, HasManyObjects = []\<rparr>,
      TableName = ''world'', Relations = [], DriverName = ''sqlite3'',
      cell_pass = (\<lambda>resource columns included OlricCache db r. Returned (Inr (r, []), OlricCache)),
      cell_pass_tx = (\<lambda>resource columns included OlricCache db r. Returned (Inr (r, []), OlricCache)),
      FormatFloat = (\<lambda>f. [])\<rparr>"

section \<open>server/id/id.go: loading rows and their relations\<close>

text \<open>
  Modelled from the spec: \<^verbatim>\<open>api2go.TableRelation\<close> is not among the sources. The join
  table of a relation is named \<^verbatim>\<open><S>_<Sc>_has_<O>_<Oc>\<close>, and the column names \<open>Sc\<close> and
  \<open>Oc\<close> default to \<^verbatim>\<open><type>_id\<close> when not given.
\<close>

definition GetSubjectName :: "TableRelation \<Rightarrow> string" where
  \<comment> \<open>Modelled from the spec: the subject column defaults to \<^verbatim>\<open><type>_id\<close>\<close>
  "GetSubjectName relation =
     (if SubjectName relation = [] then Subject relation @ ''_id'' else SubjectName relation)"

definition GetObjectName :: "TableRelation \<Rightarrow> string" where
  \<comment> \<open>Modelled from the spec: the object column defaults to \<^verbatim>\<open><type>_id\<close>\<close>
  "GetObjectName relation =
     (if ObjectName relation = [] then Object relation @ ''_id'' else ObjectName relation)"

definition GetJoinTableName :: "TableRelation \<Rightarrow> string" where
  \<comment> \<open>Modelled from the spec: \<^verbatim>\<open><S>_<Sc>_has_<O>_<Oc>\<close>\<close>
  "GetJoinTableName relation =
     Subject relation @ ''_'' @ GetSubjectName relation @ ''_has_''
       @ Object relation @ ''_'' @ GetObjectName relation"

text \<open>
  The statements of the relation loop. \<open>joined_rows\<close> is the result of the two joins
  before it is ordered: \<^verbatim>\<open>FROM anchor JOIN link ON link.<anchorName> = anchor.id JOIN target
  ON link.<targetName> = target.id WHERE\<close> \<^verbatim>\<open>goqu.Ex{"anchor.reference_id":
  row["reference_id"]}\<close>, as pairs of the link row and the target row. \<open>goqu_Limit\<close> is the builder's \<^verbatim>\<open>Limit\<close>, which sets the
  \<^verbatim>\<open>LIMIT\<close> clause for a positive argument and clears it for 0. \<open>newest\<close> is
  \<^verbatim>\<open>ORDER BY link.created_at DESC LIMIT 50\<close>.
\<close>

definition included :: "include_map \<Rightarrow> string \<Rightarrow> bool" where
  \<comment> \<open>\<^verbatim>\<open>includedRelationMap[k]\<close>\<close>
  "included includedRelationMap k = (includedRelationMap k = Some True)"

definition goqu_Limit :: "nat \<Rightarrow> 'a list \<Rightarrow> 'a list" where
  "goqu_Limit limit rows = (if 0 < limit then take limit rows else rows)"

definition joined_rows ::
  "row list \<Rightarrow> row list \<Rightarrow> row list \<Rightarrow> string \<Rightarrow> string \<Rightarrow> go_value \<Rightarrow> (row \<times> row) list" where
  "joined_rows anchors links targets anchorName targetName referenceId =
     concat (map
       (\<lambda>anchor. concat (map
          (\<lambda>link. map (\<lambda>target. (link, target))
             (filter (\<lambda>target. sql_eq (index_map link targetName) (index_map target ''id'')) targets))
          (filter (\<lambda>link. sql_eq (index_map link anchorName) (index_map anchor ''id'')) links)))
       (filter (\<lambda>anchor. goqu_Ex (index_map anchor ''reference_id'') referenceId) anchors))"

definition newest :: "(row \<times> row) list \<Rightarrow> (row \<times> row) list" where
  "newest joined = goqu_Limit 50 (sort_key (\<lambda>(link, target). - created_at link) joined)"

definition scanned_ids :: "(real \<Rightarrow> string) \<Rightarrow> (row \<times> row) list \<Rightarrow> int list" where
  \<comment> \<open>\<^verbatim>\<open>for rows.Next() { err = rows.Scan(&includeRow); if err != nil { continue }; ... }\<close>\<close>
  "scanned_ids formatFloat selected =
     concat (map (\<lambda>(link, target). case scan_int64 formatFloat (index_map target ''id'') of
                                     Inl e \<Rightarrow> [] | Inr i \<Rightarrow> [i]) selected)"

definition direct_ids ::
  "(real \<Rightarrow> string) \<Rightarrow> row list \<Rightarrow> row list \<Rightarrow> string \<Rightarrow> go_value \<Rightarrow> int list" where
  \<comment> \<open>the has-one and belongs-to statement of the object side: \<^verbatim>\<open>FROM object JOIN subject
      ON subject.<objectName> = object.id WHERE object.reference_id = ? ORDER BY
      subject.created_at DESC LIMIT 50\<close>; a failed scan appends the zero id\<close>
  "direct_ids formatFloat objects subjects objectName referenceId =
     map (\<lambda>subject. case scan_int64 formatFloat (index_map subject ''id'') of
                      Inl e \<Rightarrow> 0 | Inr i \<Rightarrow> i)
       (goqu_Limit 50 (sort_key (\<lambda>subject. - created_at subject)
          (concat (map
             (\<lambda>obj. filter (\<lambda>subject. sql_eq (index_map subject objectName) (index_map obj ''id''))
                      subjects)
             (filter (\<lambda>obj. goqu_Ex (index_map obj ''reference_id'') referenceId) objects)))))"

definition RowsToMap :: "row list \<Rightarrow> string \<Rightarrow> row list" where
  "RowsToMap rows typeName = map (\<lambda>dbRow. dbRow(''__type'' \<mapsto> VString typeName)) rows"

fun each_row ::
  "(cache option \<Rightarrow> row \<Rightarrow> ((go_error + row \<times> row list) \<times> cache option) outcome)
     \<Rightarrow> cache option \<Rightarrow> row list
     \<Rightarrow> ((go_error + row list \<times> row list list) \<times> cache option) outcome" where
  \<comment> \<open>\<^verbatim>\<open>for _, row := range responseArray { ... includes = append(includes, localInclude) }\<close>,
      left at once when the body returns an error\<close>
  "each_row body OlricCache [] = Returned (Inr ([], []), OlricCache)"
| "each_row body OlricCache (row # rows) =
     and_then (body OlricCache row) (\<lambda>(res, OlricCache).
       case res of
         Inl e \<Rightarrow> Returned (Inl e, OlricCache)
       | Inr (row', localInclude) \<Rightarrow>
           and_then (each_row body OlricCache rows) (\<lambda>(res', OlricCache).
             case res' of
               Inl e \<Rightarrow> Returned (Inl e, OlricCache)
             | Inr (rows', includes) \<Rightarrow>
                 Returned (Inr (row' # rows', localInclude # includes), OlricCache)))"

definition id_in :: "int list \<Rightarrow> row \<Rightarrow> bool" where
  \<comment> \<open>\<^verbatim>\<open>goqu.Ex{"id": ids}\<close> with \<^verbatim>\<open>ids []int64\<close>: \<^verbatim>\<open>"id" IN (...)\<close>\<close>
  "id_in ids r = list_ex (\<lambda>i. sql_eq (index_map r ''id'') (VInt64 i)) ids"

definition GetAllObjectsWithWhere ::
  "DbResource \<Rightarrow> string \<Rightarrow> cache option \<Rightarrow> database \<Rightarrow> string \<Rightarrow> int list
     \<Rightarrow> ((row list \<times> go_error option) \<times> cache option) outcome" where
  \<comment> \<open>\<^verbatim>\<open>dbResource.Cruds[receiver].GetAllObjectsWithWhere(typeName, goqu.Ex{"id": ids})\<close>. It
      runs \<^verbatim>\<open>Cruds[typeName].ResultToArrayOfMap\<close> with a nil include map, under which the
      relation loop skips every relation: only the pass over the cells is left.\<close>
  "GetAllObjectsWithWhere dbResource receiver OlricCache db typeName ids =
     (case map_of (Cruds dbResource) receiver of
        None \<Rightarrow> Panic ''invalid memory address or nil pointer dereference''
      | Some r \<Rightarrow>
          (case sql_select db typeName (id_in ids) of
             Inl e \<Rightarrow> Returned (([], Some e), OlricCache)
           | Inr rows \<Rightarrow>
               (case map_of (Cruds dbResource) typeName of
                  None \<Rightarrow> Panic ''invalid memory address or nil pointer dereference''
                | Some crud \<Rightarrow>
                    and_then
                      (each_row (\<lambda>OlricCache row.
                           cell_pass dbResource (GetName crud) typeName Map.empty OlricCache db row)
                         OlricCache (RowsToMap rows (GetName crud)))
                      (\<lambda>(res, OlricCache).
                         case res of
                           Inl e \<Rightarrow> Returned (([], Some e), OlricCache)
                         | Inr (m, includes) \<Rightarrow> Returned ((m, None), OlricCache)))))"

fun append_reference_ids :: "row \<Rightarrow> string \<Rightarrow> row list \<Rightarrow> row outcome" where
  \<comment> \<open>\<^verbatim>\<open>row[name] = append(row[name].([]string), incl["reference_id"].(string))\<close>\<close>
  "append_reference_ids row name [] = Returned row"
| "append_reference_ids row name (incl # incls) =
     (case index_map row name of
        VStrings refs \<Rightarrow>
          (case index_map incl ''reference_id'' of
             VString ref \<Rightarrow> append_reference_ids (row(name \<mapsto> VStrings (refs @ [ref]))) name incls
           | _ \<Rightarrow> Panic ''interface conversion: interface {} is not string'')
      | _ \<Rightarrow> Panic ''interface conversion: interface {} is not []string'')"

definition attach_included ::
  "DbResource \<Rightarrow> string \<Rightarrow> cache option \<Rightarrow> database \<Rightarrow> string \<Rightarrow> int list \<Rightarrow> string
     \<Rightarrow> row \<times> row list \<Rightarrow> ((go_error + row \<times> row list) \<times> cache option) outcome" where
  \<comment> \<open>the end of each branch: nothing when no id was collected; else the objects are
      loaded, the field is created when the row has no such key, the reference ids are
      appended to it and the objects to the includes of the row\<close>
  "attach_included dbResource receiver OlricCache db typeName ids name state =
     (case state of (row, localInclude) \<Rightarrow>
        if length ids < 1 then Returned (Inr (row, localInclude), OlricCache)
        else
          and_then (GetAllObjectsWithWhere dbResource receiver OlricCache db typeName ids)
            (\<lambda>((includes1, err), OlricCache).
               and_then
                 (append_reference_ids
                    (case row name of None \<Rightarrow> row(name \<mapsto> VStrings []) | Some v \<Rightarrow> row)
                    name includes1)
                 (\<lambda>row'. Returned (Inr (row', localInclude @ includes1), OlricCache))))"

definition is_has_many :: "TableRelation \<Rightarrow> bool" where
  "is_has_many relation =
     (Relation relation = ''has_many'' \<or> Relation relation = ''has_many_and_belongs_to_many'')"

definition related_rows :: "DbResource \<Rightarrow> database \<Rightarrow> TableRelation \<Rightarrow> row \<Rightarrow> (row \<times> row) list" where
  \<comment> \<open>what the joins of the has-many statement of a relation give for a parent row,
      before the order and the limit: from the subject side when the resource is the
      subject of the relation, else from the object side; nothing when a table is missing\<close>
  "related_rows dbResource db relation row =
     (if Subject relation = TableName dbResource then
        (case (db (Subject relation), db (GetJoinTableName relation), db (Object relation)) of
           (Some subjects, Some links, Some objects) \<Rightarrow>
             joined_rows subjects links objects (GetSubjectName relation)
               (GetObjectName relation) (index_map row ''reference_id'')
         | _ \<Rightarrow> [])
      else
        (case (db (Object relation), db (GetJoinTableName relation), db (Subject relation)) of
           (Some objects, Some links, Some subjects) \<Rightarrow>
             joined_rows objects links subjects (GetObjectName relation)
               (GetSubjectName relation) (index_map row ''reference_id'')
         | _ \<Rightarrow> []))"

definition collected_ids :: "DbResource \<Rightarrow> database \<Rightarrow> TableRelation \<Rightarrow> row \<Rightarrow> int list" where
  "collected_ids dbResource db relation row =
     scanned_ids (FormatFloat dbResource) (newest (related_rows dbResource db relation row))"


definition relation_step ::
  "DbResource \<Rightarrow> include_map \<Rightarrow> database \<Rightarrow> TableRelation \<Rightarrow> cache option \<Rightarrow> row \<times> row list
     \<Rightarrow> ((go_error + row \<times> row list) \<times> cache option) outcome" where
  \<comment> \<open>the body of \<^verbatim>\<open>for _, relation := range dbResource.tableInfo.Relations\<close>. On the
      subject side a failed \<^verbatim>\<open>Preparex\<close> returns the error; on the object side it is only
      logged and \<^verbatim>\<open>Queryx\<close> is called on the nil statement.\<close>
  "relation_step dbResource includedRelationMap db relation OlricCache state =
     (if \<not> (included includedRelationMap (GetObjectName relation)
              \<or> included includedRelationMap (GetSubjectName relation))
      then Returned (Inr state, OlricCache)
      else if Subject relation = TableName dbResource then
        (if is_has_many relation then
           (if db (Subject relation) = None \<or> db (GetJoinTableName relation) = None
                 \<or> db (Object relation) = None
            then Returned (Inl (Error ''no such table''), OlricCache)
            else attach_included dbResource (Object relation) OlricCache db (Object relation)
                   (collected_ids dbResource db relation (fst state))
                   (GetObjectName relation) state)
         else Returned (Inr state, OlricCache))
      else
        (if Relation relation = ''has_one'' \<or> Relation relation = ''belongs_to'' then
           (case (db (Object relation), db (Subject relation)) of
              (Some objects, Some subjects) \<Rightarrow>
                attach_included dbResource (Subject relation) OlricCache db (Subject relation)
                  (direct_ids (FormatFloat dbResource) objects subjects (GetObjectName relation)
                     (index_map (fst state) ''reference_id''))
                  (GetSubjectName relation) state
            | _ \<Rightarrow> Panic ''invalid memory address or nil pointer dereference'')
         else if is_has_many relation then
           (if db (Object relation) = None \<or> db (GetJoinTableName relation) = None
                 \<or> db (Subject relation) = None
            then Panic ''invalid memory address or nil pointer dereference''
            else attach_included dbResource (Object relation) OlricCache db (Subject relation)
                   (collected_ids dbResource db relation (fst state))
                   (GetSubjectName relation) state)
         else Returned (Inr state, OlricCache)))"

fun relation_loop ::
  "DbResource \<Rightarrow> include_map \<Rightarrow> database \<Rightarrow> TableRelation list \<Rightarrow> cache option \<Rightarrow> row \<times> row list
     \<Rightarrow> ((go_error + row \<times> row list) \<times> cache option) outcome" where
  "relation_loop dbResource includedRelationMap db [] OlricCache state =
     Returned (Inr state, OlricCache)"
| "relation_loop dbResource includedRelationMap db (relation # relations) OlricCache state =
     and_then (relation_step dbResource includedRelationMap db relation OlricCache state)
       (\<lambda>(res, OlricCache).
          case res of
            Inl e \<Rightarrow> Returned (Inl e, OlricCache)
          | Inr state' \<Rightarrow>
              relation_loop dbResource includedRelationMap db relations OlricCache state')"

definition ResultToArrayOfMap ::
  "DbResource \<Rightarrow> cache option \<Rightarrow> database \<Rightarrow> row list \<Rightarrow> string \<Rightarrow> include_map
     \<Rightarrow> ((go_error + row list \<times> row list list) \<times> cache option) outcome" where
  \<comment> \<open>\<open>columns\<close> names the table whose column map is passed; a nil include map is the
      empty one\<close>
  "ResultToArrayOfMap dbResource OlricCache db rows columns includedRelationMap =
     each_row
       (\<lambda>OlricCache row.
          and_then (cell_pass dbResource (GetName (model dbResource)) columns
                      includedRelationMap OlricCache db row)
            (\<lambda>(res, OlricCache).
               case res of
                 Inl e \<Rightarrow> Returned (Inl e, OlricCache)
               | Inr state \<Rightarrow>
                   relation_loop dbResource includedRelationMap db (Relations dbResource)
                     OlricCache state))
       OlricCache (RowsToMap rows (GetName (model dbResource)))"

text \<open>
  \<open>GetRandomRow\<close>. The statement is kept as the code builds it: the table, the literal
  compared with \<^verbatim>\<open>id\<close> and the limit. The database evaluates the random function once
  for each row it examines; \<open>random\<close> gives the value for the n-th row. \<^verbatim>\<open>max(id)\<close>
  is over the integer ids of the table.
\<close>

record random_select =
  From :: string
  id_gte :: string
  Limit :: "nat option"

definition GetRandomRow_statement :: "DbResource \<Rightarrow> string \<Rightarrow> nat \<Rightarrow> random_select" where
  "GetRandomRow_statement dbResource typeName count' =
     (let randomFunc = (if DriverName dbResource = ''mysql'' then ''RAND() * '' else ''RANDOM() * '');
          maxSql = ''SELECT max(id) FROM '' @ [CHR 0x22] @ typeName @ [CHR 0x22]
      in \<lparr>From = typeName,
          id_gte = randomFunc @ '' ( '' @ maxSql @ '' ) '',
          Limit = (if 0 < count' then Some count' else None)\<rparr>)"

definition int_ids :: "row list \<Rightarrow> int list" where
  "int_ids rows = concat (map (\<lambda>r. case index_map r ''id'' of VInt64 i \<Rightarrow> [i] | _ \<Rightarrow> []) rows)"

definition run_random_select ::
  "database \<Rightarrow> (nat \<Rightarrow> real) \<Rightarrow> random_select \<Rightarrow> go_error + row list" where
  "run_random_select db random stmt =
     (case db (From stmt) of
        None \<Rightarrow> Inl (Error ''no such table'')
      | Some rows \<Rightarrow>
          (let matching =
                 map snd (filter
                   (\<lambda>(n, r). case index_map r ''id'' of
                               VInt64 i \<Rightarrow> int_ids rows \<noteq> []
                                            \<and> random n * real_of_int (Max (set (int_ids rows)))
                                                 \<le> real_of_int i
                             | _ \<Rightarrow> False)
                   (zip [0..<length rows] rows))
           in Inr (case Limit stmt of None \<Rightarrow> matching | Some n \<Rightarrow> take n matching)))"

definition GetRandomRow ::
  "DbResource \<Rightarrow> cache option \<Rightarrow> database \<Rightarrow> (nat \<Rightarrow> real) \<Rightarrow> string \<Rightarrow> nat
     \<Rightarrow> ((row list \<times> go_error option) \<times> cache option) outcome" where
  "GetRandomRow dbResource OlricCache db random typeName count' =
     (case run_random_select db random (GetRandomRow_statement dbResource typeName count') of
        Inl e \<Rightarrow> Returned (([], Some e), OlricCache)
      | Inr rows \<Rightarrow>
          (case map_of (Cruds dbResource) typeName of
             None \<Rightarrow> Panic ''invalid memory address or nil pointer dereference''
           | Some crud \<Rightarrow>
               and_then (ResultToArrayOfMap dbResource OlricCache db rows typeName Map.empty)
                 (\<lambda>(res, OlricCache).
                    case res of
                      Inl e \<Rightarrow> Returned (([], Some e), OlricCache)
                    | Inr (m1, includes) \<Rightarrow> Returned ((m1, None), OlricCache))))"

section \<open>server/id/id.go: the permission of a row\<close>

text \<open>
  Modelled from the spec: \<^verbatim>\<open>BeginsWith\<close> is not among the sources; the type of a row
  "begins with \<^verbatim>\<open>file.\<close>". \<open>strings_Index\<close> is \<^verbatim>\<open>strings.Index\<close>, and
  \<open>float_to_int64\<close> is the conversion \<^verbatim>\<open>int64(f64)\<close>: the fraction is dropped, and a
  value out of range gives the least \<^verbatim>\<open>int64\<close>, as on amd64.
\<close>

definition BeginsWith :: "string \<Rightarrow> string \<Rightarrow> bool" where
  \<comment> \<open>Modelled from the spec: the type "begins with" the prefix\<close>
  "BeginsWith s pre = (take (length pre) s = pre)"

fun strings_Index :: "string \<Rightarrow> string \<Rightarrow> int" where
  "strings_Index [] substr = (if substr = [] then 0 else - 1)"
| "strings_Index (c # s) substr =
     (if take (length substr) (c # s) = substr then 0
      else (let i = strings_Index s substr in if i < 0 then - 1 else i + 1))"

definition float_to_int64 :: "real \<Rightarrow> int" where
  "float_to_int64 f =
     (let t = (if 0 \<le> f then \<lfloor>f\<rfloor> else \<lceil>f\<rceil>)
      in if - (2 ^ 63) \<le> t \<and> t < 2 ^ 63 then t else - (2 ^ 63))"

definition fmt_v :: "DbResource \<Rightarrow> go_value \<Rightarrow> string" where
  \<comment> \<open>\<^verbatim>\<open>%v\<close> of an interface value\<close>
  "fmt_v dbResource v =
     (case v of
        VNil \<Rightarrow> ''<nil>''
      | VString s \<Rightarrow> s
      | VInt64 i \<Rightarrow> FormatInt i
      | VFloat64 f \<Rightarrow> FormatFloat dbResource f
      | VBool b \<Rightarrow> (if b then ''true'' else ''false'')
      | VStrings l \<Rightarrow> ''['' @ concat (case l of [] \<Rightarrow> [] | x # xs \<Rightarrow> x # map (\<lambda>y. '' '' @ y) xs) @ '']'')"

definition sql_project :: "string list \<Rightarrow> row \<Rightarrow> row" where
  \<comment> \<open>the columns a \<^verbatim>\<open>SELECT\<close> names\<close>
  "sql_project columns r = r |` set columns"

definition ResultToArrayOfMapWithTransaction ::
  "DbResource \<Rightarrow> cache option \<Rightarrow> database \<Rightarrow> row list \<Rightarrow> string \<Rightarrow> include_map
     \<Rightarrow> ((go_error + row list \<times> row list list) \<times> cache option) outcome" where
  \<comment> \<open>the variant differs from \<open>ResultToArrayOfMap\<close> in the handle its statements run on
      and in the calls inside the pass over the cells: the same function with the other
      pass\<close>
  "ResultToArrayOfMapWithTransaction dbResource OlricCache db rows columns includedRelationMap =
     ResultToArrayOfMap (dbResource\<lparr>cell_pass := cell_pass_tx dbResource\<rparr>) OlricCache db rows
       columns includedRelationMap"

definition GetReferenceIdToObjectColumn ::
  "DbResource \<Rightarrow> cache option \<Rightarrow> database \<Rightarrow> string \<Rightarrow> string \<Rightarrow> string
     \<Rightarrow> ((go_value \<times> go_error option) \<times> cache option) outcome" where
  "GetReferenceIdToObjectColumn dbResource OlricCache db typeName referenceId columnToSelect =
     (case sql_select db typeName
             (\<lambda>r. sql_eq (index_map r ''reference_id'') (VString referenceId)) of
        Inl e \<Rightarrow> Returned ((VNil, Some e), OlricCache)
      | Inr rows \<Rightarrow>
          (case map_of (Cruds dbResource) typeName of
             None \<Rightarrow> Panic ''invalid memory address or nil pointer dereference''
           | Some crud \<Rightarrow>
               and_then (ResultToArrayOfMap dbResource OlricCache db
                           (map (sql_project [columnToSelect]) rows) typeName Map.empty)
                 (\<lambda>(res, OlricCache).
                    case res of
                      Inl e \<Rightarrow> Returned ((VNil, Some e), OlricCache)
                    | Inr (results, includes) \<Rightarrow>
                        (case results of
                           [] \<Rightarrow> Returned ((VNil, Some (Error ''no such object 1197'')), OlricCache)
                         | r # _ \<Rightarrow> Returned ((index_map r columnToSelect, None), OlricCache)))))"

definition GetReferenceIdToObjectColumnWithTransaction ::
  "DbResource \<Rightarrow> cache option \<Rightarrow> database \<Rightarrow> string \<Rightarrow> string \<Rightarrow> string
     \<Rightarrow> ((go_value \<times> go_error option) \<times> cache option) outcome" where
  "GetReferenceIdToObjectColumnWithTransaction dbResource OlricCache db typeName referenceId
       columnToSelect =
     (case sql_select db typeName
             (\<lambda>r. sql_eq (index_map r ''reference_id'') (VString referenceId)) of
        Inl e \<Rightarrow> Returned ((VNil, Some e), OlricCache)
      | Inr rows \<Rightarrow>
          (case map_of (Cruds dbResource) typeName of
             None \<Rightarrow> Panic ''invalid memory address or nil pointer dereference''
           | Some crud \<Rightarrow>
               and_then (ResultToArrayOfMapWithTransaction dbResource OlricCache db
                           (map (sql_project [columnToSelect]) rows) typeName Map.empty)
                 (\<lambda>(res, OlricCache).
                    case res of
                      Inl e \<Rightarrow> Returned ((VNil, Some e), OlricCache)
                    | Inr (results, includes) \<Rightarrow>
                        (case results of
                           [] \<Rightarrow> Returned ((VNil, Some (Error ''no such object 1197'')), OlricCache)
                         | r # _ \<Rightarrow> Returned ((index_map r columnToSelect, None), OlricCache)))))"

definition GetObjectUserGroupsByWhere ::
  "DbResource \<Rightarrow> database \<Rightarrow> string \<Rightarrow> string \<Rightarrow> go_value \<Rightarrow> GroupPermission list" where
  \<comment> \<open>\<^verbatim>\<open>SELECT usergroup_id.reference_id, <join>.reference_id, <join>.permission FROM <t>
      JOIN <join> ON <join>.<t>_id = <t>.id JOIN usergroup AS usergroup_id
      ON <join>.usergroup_id = usergroup_id.id WHERE\<close> \<^verbatim>\<open>goqu.Ex{"<t>.<colName>": colValue}\<close>; the variant with a
      transaction runs the same statement. Nothing is returned when \<^verbatim>\<open>Preparex\<close> fails.\<close>
  "GetObjectUserGroupsByWhere dbResource db objectType colName colValue =
     (case (db objectType,
            db (objectType @ ''_'' @ objectType @ ''_id'' @ ''_has_'' @ ''usergroup'' @ ''_''
                  @ ''usergroup_id''),
            db ''usergroup'') of
        (Some subjects, Some links, Some groups) \<Rightarrow>
          concat (map
            (\<lambda>subject. concat (map
               (\<lambda>link. map
                  (\<lambda>g. StructScan_GroupPermission (FormatFloat dbResource)
                         (index_map g ''reference_id'')
                         (index_map link ''reference_id'') (index_map link ''permission''))
                  (filter (\<lambda>g. sql_eq (index_map link ''usergroup_id'') (index_map g ''id'')) groups))
               (filter (\<lambda>link. sql_eq (index_map link (objectType @ ''_id''))
                                   (index_map subject ''id'')) links)))
            (filter (\<lambda>subject. goqu_Ex (index_map subject colName) colValue) subjects))
      | _ \<Rightarrow> [])"

definition permission_row :: "database \<Rightarrow> string \<Rightarrow> string \<Rightarrow> row option" where
  \<comment> \<open>\<^verbatim>\<open>SELECT [user_account_id,] permission, id FROM <t> WHERE reference_id = ?\<close> with
      \<^verbatim>\<open>QueryRowx(...).MapScan(resultObject)\<close>: the map stays empty when no row is found;
      \<open>None\<close> when \<^verbatim>\<open>Preparex\<close> fails\<close>
  "permission_row db objectType referenceId =
     (case sql_select db objectType
             (\<lambda>r. sql_eq (index_map r ''reference_id'') (VString referenceId)) of
        Inl e \<Rightarrow> None
      | Inr [] \<Rightarrow> Some Map.empty
      | Inr (r # _) \<Rightarrow>
          Some (sql_project (if objectType = ''usergroup'' then [''permission'', ''id'']
                             else [USER_ACCOUNT_ID_COLUMN, ''permission'', ''id'']) r))"

definition GetObjectPermissionByReferenceId ::
  "DbResource \<Rightarrow> cache option \<Rightarrow> database \<Rightarrow> string \<Rightarrow> string
     \<Rightarrow> (PermissionInstance \<times> cache option) outcome" where
  "GetObjectPermissionByReferenceId dbResource OlricCache db objectType referenceId =
     (case permission_row db objectType referenceId of
        None \<Rightarrow> Returned (zero_PermissionInstance, OlricCache)
      | Some resultObject \<Rightarrow>
          and_then
            (if index_map resultObject USER_ACCOUNT_ID_COLUMN \<noteq> VNil then
               and_then (assert_int64 (index_map resultObject USER_ACCOUNT_ID_COLUMN)) (\<lambda>uid.
               and_then (GetIdToReferenceId dbResource OlricCache db USER_ACCOUNT_TABLE_NAME uid)
                 (\<lambda>((user, err), OlricCache).
                    Returned (if err = None then user else [], OlricCache)))
             else Returned ([], OlricCache))
            (\<lambda>(UserId', OlricCache).
               case index_map resultObject ''id'' of
                 VInt64 i \<Rightarrow>
                   and_then (GetObjectGroupsByObjectId dbResource OlricCache db objectType i)
                     (\<lambda>(groups, OlricCache).
                   and_then (assert_int64 (index_map resultObject ''permission'')) (\<lambda>permission.
                     Returned (\<lparr>UserId = UserId', UserGroupId = groups,
                                InstancePermission = permission\<rparr>, OlricCache)))
               | _ \<Rightarrow> Returned (zero_PermissionInstance\<lparr>UserId := UserId'\<rparr>, OlricCache)))"

definition GetObjectPermissionByReferenceIdWithTransaction ::
  "DbResource \<Rightarrow> cache option \<Rightarrow> database \<Rightarrow> string \<Rightarrow> string
     \<Rightarrow> (PermissionInstance \<times> cache option) outcome" where
  "GetObjectPermissionByReferenceIdWithTransaction dbResource OlricCache db objectType referenceId =
     (let cacheKey = ''opject-permission-'' @ objectType @ ''-'' @ referenceId
      in case cache_Get OlricCache cacheKey of
           Some (cachedValue, ttl) \<Rightarrow>
             (case cachedValue of
                CPermission p \<Rightarrow> Returned (p, OlricCache)
              | _ \<Rightarrow> Panic ''interface conversion: interface {} is not PermissionInstance'')
         | None \<Rightarrow>
             (case permission_row db objectType referenceId of
                None \<Rightarrow> Returned (zero_PermissionInstance, OlricCache)
              | Some resultObject \<Rightarrow>
                  and_then
                    (if index_map resultObject USER_ACCOUNT_ID_COLUMN \<noteq> VNil then
                       and_then (assert_int64 (index_map resultObject USER_ACCOUNT_ID_COLUMN)) (\<lambda>uid.
                       and_then (GetIdToReferenceIdWithTransaction dbResource OlricCache db
                                   USER_ACCOUNT_TABLE_NAME uid)
                         (\<lambda>((user, err), OlricCache).
                            Returned (if err = None then user else [], OlricCache)))
                     else Returned ([], OlricCache))
                    (\<lambda>(UserId', OlricCache).
                       case index_map resultObject ''id'' of
                         VInt64 i \<Rightarrow>
                           and_then (GetObjectGroupsByObjectIdWithTransaction dbResource OlricCache
                                       db objectType i)
                             (\<lambda>(groups, OlricCache).
                           and_then (assert_int64 (index_map resultObject ''permission''))
                             (\<lambda>permission.
                                (let perm = \<lparr>UserId = UserId', UserGroupId = groups,
                                             InstancePermission = permission\<rparr>
                                 in case OlricCache of
                                      None \<Rightarrow> Returned (perm, None)
                                    | Some c \<Rightarrow>
                                        Returned (perm,
                                          Some (fst (PutIfEx c cacheKey (CPermission perm)
                                                       (30 * Minute)))))))
                       | _ \<Rightarrow> Returned (zero_PermissionInstance\<lparr>UserId := UserId'\<rparr>, OlricCache))))"

text \<open>
  \<open>GetRowPermission\<close> and its variant with a transaction, in the order of the source:
  the reference id, the type, the owner (\<open>row_owner\<close>, the block under
  \<^verbatim>\<open>if rowType != "usergroup"\<close>), the entry made up for files and \<^verbatim>\<open>none\<close>, the groups
  (\<open>row_groups\<close>) and the permission bits (\<open>row_permission_bits\<close>).
\<close>

definition row_refId :: "row \<Rightarrow> go_value" where
  \<comment> \<open>\<^verbatim>\<open>refId, ok := row["reference_id"]; if !ok { refId = row["id"] }\<close>\<close>
  "row_refId row = (case row ''reference_id'' of Some v \<Rightarrow> v | None \<Rightarrow> index_map row ''id'')"

definition row_owner ::
  "DbResource \<Rightarrow> cache option \<Rightarrow> database \<Rightarrow> row \<Rightarrow> string \<Rightarrow> (string \<times> cache option) outcome" where
  "row_owner dbResource OlricCache db row rowType =
     (if rowType \<noteq> ''usergroup'' then
        (if index_map row USER_ACCOUNT_ID_COLUMN \<noteq> VNil then
           Returned (assert_string_ok (index_map row USER_ACCOUNT_ID_COLUMN), OlricCache)
         else
           and_then (assert_string (row_refId row)) (\<lambda>refId.
           and_then (GetReferenceIdToObjectColumn dbResource OlricCache db rowType refId
                       USER_ACCOUNT_ID_COLUMN)
             (\<lambda>((u, err), OlricCache).
                Returned (if u \<noteq> VNil then assert_string_ok u else [], OlricCache))))
      else Returned ([], OlricCache))"

definition row_owner_tx ::
  "DbResource \<Rightarrow> cache option \<Rightarrow> database \<Rightarrow> row \<Rightarrow> string \<Rightarrow> (string \<times> cache option) outcome" where
  "row_owner_tx dbResource OlricCache db row rowType =
     (if rowType \<noteq> ''usergroup'' then
        (if index_map row USER_ACCOUNT_ID_COLUMN \<noteq> VNil then
           Returned (assert_string_ok (index_map row USER_ACCOUNT_ID_COLUMN), OlricCache)
         else
           and_then (assert_string (row_refId row)) (\<lambda>refId.
           and_then (GetReferenceIdToObjectColumnWithTransaction dbResource OlricCache db rowType
                       refId USER_ACCOUNT_ID_COLUMN)
             (\<lambda>((u, err), OlricCache).
                Returned (if u \<noteq> VNil then assert_string_ok u else [], OlricCache))))
      else Returned ([], OlricCache))"

definition guest_read_only :: "GroupPermission list" where
  "guest_read_only =
     [\<lparr>GroupReferenceId = [], ObjectReferenceId = [], RelationReferenceId = [],
       Permission = GuestRead\<rparr>]"

definition row_groups ::
  "DbResource \<Rightarrow> database \<Rightarrow> row \<Rightarrow> string \<Rightarrow> GroupPermission list outcome" where
  \<comment> \<open>\<^verbatim>\<open>loc == -1 && dbResource.Cruds[rowType].model.HasMany("usergroup")\<close>, else the group
      itself for a usergroup, else nothing for a link table\<close>
  "row_groups dbResource db row rowType =
     (let loc = strings_Index rowType ''_has_''
      in and_then
           (if loc = - 1 then
              (case map_of (Cruds dbResource) rowType of
                 None \<Rightarrow> Panic ''invalid memory address or nil pointer dereference''
               | Some crud \<Rightarrow> Returned (HasMany crud ''usergroup''))
            else Returned False)
           (\<lambda>hasGroups.
              if hasGroups then
                and_then (assert_string (row_refId row)) (\<lambda>refId.
                  Returned (GetObjectUserGroupsByWhere dbResource db rowType ''reference_id''
                              (VString refId)))
              else if rowType = ''usergroup'' then
                and_then (assert_string (row_refId row)) (\<lambda>refId.
                and_then (if index_map row ''reference_id'' \<noteq> VNil
                          then assert_string (index_map row ''reference_id'')
                          else Returned refId) (\<lambda>originalGroupIdStr.
                  case map_of (Cruds dbResource) ''usergroup'' of
                    None \<Rightarrow> Panic ''invalid memory address or nil pointer dereference''
                  | Some crud \<Rightarrow>
                      Returned [\<lparr>GroupReferenceId = originalGroupIdStr, ObjectReferenceId = refId,
                                 RelationReferenceId = refId,
                                 Permission = GetDefaultPermission crud\<rparr>]))
              else Returned []))"

definition row_permission_bits :: "go_value \<Rightarrow> AuthPermission outcome" where
  \<comment> \<open>an \<^verbatim>\<open>int64\<close>, else a \<^verbatim>\<open>float64\<close>, else \<^verbatim>\<open>rowPermission.(string)\<close> parsed; a parse
      error is only logged\<close>
  "row_permission_bits rowPermission =
     (case rowPermission of
        VInt64 i64 \<Rightarrow> Returned i64
      | VFloat64 f64 \<Rightarrow> Returned (float_to_int64 f64)
      | _ \<Rightarrow> and_then (assert_string rowPermission) (\<lambda>s. Returned (fst (ParseInt s))))"

definition GetRowPermission ::
  "DbResource \<Rightarrow> cache option \<Rightarrow> database \<Rightarrow> row \<Rightarrow> (PermissionInstance \<times> cache option) outcome" where
  "GetRowPermission dbResource OlricCache db row =
     and_then (assert_string (index_map row ''__type'')) (\<lambda>rowType.
     and_then (row_owner dbResource OlricCache db row rowType) (\<lambda>(UserId', OlricCache).
       if BeginsWith rowType ''file.'' \<or> rowType = ''none'' then
         Returned (\<lparr>UserId = UserId', UserGroupId = guest_read_only, InstancePermission = 0\<rparr>,
                   OlricCache)
       else
         and_then (row_groups dbResource db row rowType) (\<lambda>groups.
           if index_map row ''permission'' \<noteq> VNil then
             and_then (row_permission_bits (index_map row ''permission'')) (\<lambda>i64.
               Returned (\<lparr>UserId = UserId', UserGroupId = groups, InstancePermission = i64\<rparr>,
                         OlricCache))
           else
             and_then (assert_string (row_refId row)) (\<lambda>refId.
             and_then (GetObjectPermissionByReferenceId dbResource OlricCache db rowType refId)
               (\<lambda>(pe, OlricCache).
                  Returned (\<lparr>UserId = UserId', UserGroupId = groups,
                             InstancePermission = InstancePermission pe\<rparr>, OlricCache))))))"

definition row_permission_key :: "DbResource \<Rightarrow> string \<Rightarrow> go_value \<Rightarrow> string" where
  \<comment> \<open>\<^verbatim>\<open>fmt.Sprintf("row-permission-%v-%v", rowType, refId)\<close>\<close>
  "row_permission_key dbResource rowType refId =
     ''row-permission-'' @ rowType @ ''-'' @ fmt_v dbResource refId"

definition GetRowPermissionWithTransaction ::
  "DbResource \<Rightarrow> cache option \<Rightarrow> database \<Rightarrow> row \<Rightarrow> (PermissionInstance \<times> cache option) outcome" where
  "GetRowPermissionWithTransaction dbResource OlricCache db row =
     and_then (assert_string (index_map row ''__type'')) (\<lambda>rowType.
       let cacheKey = row_permission_key dbResource rowType (row_refId row)
       in case cache_Get OlricCache cacheKey of
            Some (cachedValue, ttl) \<Rightarrow>
              (case cachedValue of
                 CPermission p \<Rightarrow> Returned (p, OlricCache)
               | _ \<Rightarrow> Panic ''interface conversion: interface {} is not PermissionInstance'')
          | None \<Rightarrow>
     and_then (row_owner_tx dbResource OlricCache db row rowType) (\<lambda>(UserId', OlricCache).
       if BeginsWith rowType ''file.'' \<or> rowType = ''none'' then
         Returned (\<lparr>UserId = UserId', UserGroupId = guest_read_only, InstancePermission = 0\<rparr>,
                   OlricCache)
       else
         and_then (row_groups dbResource db row rowType) (\<lambda>groups.
         and_then
           (if index_map row ''permission'' \<noteq> VNil then
              and_then (row_permission_bits (index_map row ''permission'')) (\<lambda>i64.
                Returned (\<lparr>UserId = UserId', UserGroupId = groups, InstancePermission = i64\<rparr>,
                          OlricCache))
            else
              and_then (assert_string (row_refId row)) (\<lambda>refId.
              and_then (GetObjectPermissionByReferenceIdWithTransaction dbResource OlricCache db
                          rowType refId)
                (\<lambda>(pe, OlricCache).
                   Returned (\<lparr>UserId = UserId', UserGroupId = groups,
                              InstancePermission = InstancePermission pe\<rparr>, OlricCache))))
           (\<lambda>(perm, OlricCache).
              case OlricCache of
                None \<Rightarrow> Returned (perm, None)
              | Some c \<Rightarrow>
                  Returned (perm, Some (fst (PutIfEx c cacheKey (CPermission perm)
                                               (1 * Minute))))))))"





definition S3_relation :: TableRelation where
  "S3_relation =
     \<lparr>Subject = ''author'', Object = ''post'', Relation = ''has_many'',
      SubjectName = ''author_id'', ObjectName = ''post_id''\<rparr>"

definition S3_resource :: DbResource where
  "S3_resource =
     \<lparr>Cruds = [(''author'', \<lparr>GetName = ''author'', ColumnNames = [''id'', ''reference_id''],
                             GetDefaultPermission = 0, HasManyObjects = [''post'']\<rparr>),
               (''post'', \<lparr>GetName = ''post'', ColumnNames = [''id'', ''reference_id''],
                           GetDefaultPermission = 0, HasManyObjects = []\<rparr>)],
      DEFAULT_PERMISSION = 0, OlricDb = None,
      model = \<lparr>GetName = ''author'', ColumnNames = [''id'', ''reference_id''],
                GetDefaultPermission = 0, HasManyObjects = [''post'']\<rparr>,
      TableName = ''author'', Relations = [S3_relation], DriverName = ''sqlite3'',
      cell_pass = (\<lambda>resource columns included OlricCache db r. Returned (Inr (r, []), OlricCache)),
      cell_pass_tx = (\<lambda>resource columns included OlricCache db r. Returned (Inr (r, []), OlricCache)),
      FormatFloat = (\<lambda>f. [])\<rparr>"

definition S3_db :: database where
  "S3_db =
     [''author'' \<mapsto> [[''id'' \<mapsto> VInt64 1, ''reference_id'' \<mapsto> VString ''a-1''],
                       [''id'' \<mapsto> VInt64 2, ''reference_id'' \<mapsto> VString ''a-2'']],
      ''post'' \<mapsto> [[''id'' \<mapsto> VInt64 1, ''reference_id'' \<mapsto> VString ''p-1''],
                     [''id'' \<mapsto> VInt64 2, ''reference_id'' \<mapsto> VString ''p-2''],
                     [''id'' \<mapsto> VInt64 3, ''reference_id'' \<mapsto> VString ''p-3'']],
      ''author_author_id_has_post_post_id'' \<mapsto>
         [[''id'' \<mapsto> VInt64 1, ''author_id'' \<mapsto> VInt64 1, ''post_id'' \<mapsto> VInt64 1,
           ''created_at'' \<mapsto> VInt64 100],
          [''id'' \<mapsto> VInt64 2, ''author_id'' \<mapsto> VInt64 1, ''post_id'' \<mapsto> VInt64 2,
           ''created_at'' \<mapsto> VInt64 200],
          [''id'' \<mapsto> VInt64 3, ''author_id'' \<mapsto> VInt64 1, ''post_id'' \<mapsto> VInt64 3,
           ''created_at'' \<mapsto> VInt64 300]]]"

section \<open>server/resource/action_generate_password_reset_verify_flow.go\<close>

text \<open>
  \<open>DoAction\<close> of the \<^verbatim>\<open>password.reset.verify\<close> performer. What it calls outside the
  file is its environment: the user lookup \<^verbatim>\<open>GetRowsByWhereClause("user_account", ...,
  goqu.Ex{"email": email})\<close>, \<^verbatim>\<open>base64.StdEncoding.DecodeString\<close> and \<^verbatim>\<open>jwt.Parse\<close>
  (its result read as the token's \<^verbatim>\<open>Valid\<close> flag and the error). \<^verbatim>\<open>NewActionResponse\<close>
  builds the response from its two arguments. Both attribute maps of the source hold
  strings only.
\<close>

record ActionResponse =
  ResponseType :: string
  Attributes :: "string \<rightharpoonup> string"

definition NewActionResponse :: "string \<Rightarrow> (string \<rightharpoonup> string) \<Rightarrow> ActionResponse" where
  "NewActionResponse responseType attrs = \<lparr>ResponseType = responseType, Attributes = attrs\<rparr>"

datatype Responder = Responder gomap

record generatePasswordResetVerifyActionPerformer =
  users_by_email :: "go_value \<Rightarrow> gomap list \<times> go_error option"
  base64_DecodeString :: "string \<Rightarrow> go_error + string"
  jwt_Parse :: "string \<Rightarrow> string \<Rightarrow> bool \<times> go_error option"
  secret :: string

definition DoAction ::
  "generatePasswordResetVerifyActionPerformer \<Rightarrow> gomap
     \<Rightarrow> (Responder option \<times> ActionResponse list \<times> go_error list option) outcome" where
  "DoAction d inFieldMap =
     (let responses = [];
          email = index_map inFieldMap ''email'';
          (existingUsers, err) = users_by_email d email
      in if err \<noteq> None \<or> length existingUsers < 1 then
           Returned (None,
             responses @ [NewActionResponse ''client.notify''
               [''type'' \<mapsto> ''error'', ''message'' \<mapsto> ''No Such account'', ''title'' \<mapsto> ''Failed'']],
             None)
         else
           (case assert_string (index_map inFieldMap ''token'') of
              Panic msg \<Rightarrow> Panic msg
            | Returned token \<Rightarrow>
                (case base64_DecodeString d token of
                   Inl e \<Rightarrow>
                     Returned (None,
                       responses @ [NewActionResponse ''client.notify''
                         [''type'' \<mapsto> ''error'', ''message'' \<mapsto> ''Invalid token'',
                          ''title'' \<mapsto> ''Failed'']],
                       None)
                 | Inr tokenString \<Rightarrow>
                     (let (valid, perr) = jwt_Parse d tokenString (secret d)
                      in if perr \<noteq> None \<or> \<not> valid then
                           Returned (None,
                             responses @ [NewActionResponse ''client.notify''
                               [''message'' \<mapsto> ''Token has expired'', ''title'' \<mapsto> ''Failed'',
                                ''type'' \<mapsto> ''failed'']],
                             None)
                         else
                           Returned (None,
                             responses @ [NewActionResponse ''client.notify''
                               [''message'' \<mapsto> ''Logged in'', ''title'' \<mapsto> ''Success'',
                                ''type'' \<mapsto> ''success'']],
                             None)))))"

chapter \<open>Properties\<close>

section \<open>DaptinReferenceId: binary round trip\<close>

lemma go_copy_full: "length dst = length src \<Longrightarrow> go_copy dst src = src"
  by (simp add: go_copy_def)

text \<open>
  C9. For every 16-byte reference id \<open>d\<close> (and every 16-byte receiver \<open>r\<close>),
  unmarshalling the bytes that \<open>MarshalBinary d\<close> returns succeeds and leaves exactly
  \<open>d\<close> in the receiver. For any input slice, \<open>UnmarshalBinary\<close> returns an error exactly
  when the slice is not 16 bytes long, and then the receiver is unchanged.
\<close>

theorem C9_marshal_roundtrip:
  assumes "length d = 16" and "length r = 16"
  shows "snd (MarshalBinary d) = None
    \<and> UnmarshalBinary r (fst (MarshalBinary d)) = (d, None)
    \<and> ((snd (UnmarshalBinary r data) \<noteq> None) = (length data \<noteq> 16))
    \<and> (snd (UnmarshalBinary r data) \<noteq> None \<longrightarrow> fst (UnmarshalBinary r data) = r)"
  using assms by (simp add: MarshalBinary_def UnmarshalBinary_def go_copy_full)

theorem C9_marshal_roundtrip_witness:
  "snd (MarshalBinary [1, 2, 3, 4, 5, 6, 7, 8, 9, 10, 11, 12, 13, 14, 15, 16]) = None
    \<and> UnmarshalBinary (replicate 16 0)
          (fst (MarshalBinary [1, 2, 3, 4, 5, 6, 7, 8, 9, 10, 11, 12, 13, 14, 15, 16]))
        = ([1, 2, 3, 4, 5, 6, 7, 8, 9, 10, 11, 12, 13, 14, 15, 16], None)
    \<and> snd (UnmarshalBinary (replicate 16 0) [1, 2, 3]) \<noteq> None
    \<and> fst (UnmarshalBinary (replicate 16 0) [1, 2, 3]) = replicate 16 0"
  using C9_marshal_roundtrip
    [of "[1, 2, 3, 4, 5, 6, 7, 8, 9, 10, 11, 12, 13, 14, 15, 16]" "replicate 16 0" "[1, 2, 3]"]
  by simp

section \<open>password.reset.verify: what DoAction returns\<close>

text \<open>
  C10, as the code has it. Whenever no account matches (or the lookup fails), or the
  \<^verbatim>\<open>token\<close> field of the request is a string, \<open>DoAction\<close> returns a nil responder, a
  nil error list and exactly one \<^verbatim>\<open>client.notify\<close> response whose attributes are
  \<^verbatim>\<open>type\<close>, \<^verbatim>\<open>message\<close> and \<^verbatim>\<open>title\<close>: whatever the decoder and the JWT parser
  answer.
\<close>

theorem C10_DoAction_one_notify:
  assumes "snd (users_by_email d (index_map inFieldMap ''email'')) \<noteq> None
         \<or> fst (users_by_email d (index_map inFieldMap ''email'')) = []
         \<or> (\<exists>s. index_map inFieldMap ''token'' = VString s)"
  shows "\<exists>r. DoAction d inFieldMap = Returned (None, [r], None)
           \<and> ResponseType r = ''client.notify''
           \<and> dom (Attributes r) = {''type'', ''message'', ''title''}"
proof (cases "snd (users_by_email d (index_map inFieldMap ''email'')) \<noteq> None
         \<or> fst (users_by_email d (index_map inFieldMap ''email'')) = []")
  case True
  then show ?thesis
    by (auto simp: DoAction_def NewActionResponse_def Let_def split: prod.splits)
next
  case False
  with assms obtain s where s: "index_map inFieldMap ''token'' = VString s"
    by blast
  show ?thesis
  proof (cases "base64_DecodeString d s")
    case (Inl e)
    with False s show ?thesis
      by (auto simp: DoAction_def NewActionResponse_def assert_string_def Let_def
          split: prod.splits)
  next
    case (Inr t)
    with False s show ?thesis
      by (auto simp: DoAction_def NewActionResponse_def assert_string_def Let_def
          split: prod.splits)
  qed
qed

theorem C10_DoAction_one_notify_witness:
  "\<exists>r. DoAction
          \<lparr>users_by_email = (\<lambda>e. ([Map.empty], None)),
           base64_DecodeString = (\<lambda>t. Inr t),
           jwt_Parse = (\<lambda>t k. (True, None)),
           secret = ''k''\<rparr>
          [''email'' \<mapsto> VString ''a@x'', ''token'' \<mapsto> VString ''abc'']
        = Returned (None, [r], None)
      \<and> ResponseType r = ''client.notify''
      \<and> dom (Attributes r) = {''type'', ''message'', ''title''}"
  using C10_DoAction_one_notify
    [of "\<lparr>users_by_email = (\<lambda>e. ([Map.empty], None)),
           base64_DecodeString = (\<lambda>t. Inr t),
           jwt_Parse = (\<lambda>t k. (True, None)),
           secret = ''k''\<rparr>"
        "[''email'' \<mapsto> VString ''a@x'', ''token'' \<mapsto> VString ''abc'']"]
  by (simp add: index_map_def)

text \<open>
  The property as the specification states it fails: with an account on file and no \<^verbatim>\<open>token\<close> field in the
  request, \<^verbatim>\<open>token.(string)\<close> panics and \<open>DoAction\<close> returns nothing.
\<close>

theorem C10_DoAction_counterexample:
  "DoAction
     \<lparr>users_by_email = (\<lambda>e. ([Map.empty], None)),
      base64_DecodeString = (\<lambda>t. Inr t),
      jwt_Parse = (\<lambda>t k. (True, None)),
      secret = ''k''\<rparr>
     [''email'' \<mapsto> VString ''a@x'']
   = Panic ''interface conversion: interface {} is not string''"
  by (simp add: DoAction_def index_map_def assert_string_def)

section \<open>Identity resolution: the cache entries and the round trip\<close>

lemma sql_eq_index: "v \<noteq> VNil \<Longrightarrow> sql_eq (index_map r k) v = (r k = Some v)"
  by (auto simp: sql_eq_def index_map_def split: option.splits)

lemma filter_distinct_key:
  "distinct (map f rows) \<Longrightarrow> r \<in> set rows \<Longrightarrow> f r = v \<Longrightarrow> filter (\<lambda>x. f x = v) rows = [r]"
proof (induction rows)
  case Nil
  then show ?case by simp
next
  case (Cons a rows)
  show ?case
  proof (cases "a = r")
    case True
    with Cons.prems have "\<forall>x\<in>set rows. f x \<noteq> v" by (auto simp: image_iff)
    then have "filter (\<lambda>x. f x = v) rows = []" by (simp add: filter_empty_conv)
    with True Cons.prems show ?thesis by simp
  next
    case False
    with Cons.prems have "r \<in> set rows" by simp
    moreover from Cons.prems this have "f a \<noteq> v" by (auto simp: image_iff)
    ultimately show ?thesis using Cons by simp
  qed
qed

lemma itr_ne_riti: "itr_key t i \<noteq> riti_key t' s"
  by (simp add: itr_key_def riti_key_def)

lemma select_id:
  assumes "db t = Some rows" "keyed_table rows" "r \<in> set rows" "r ''id'' = Some (VInt64 i)"
  shows "sql_select db t (\<lambda>r. sql_eq (index_map r ''id'') (VInt64 i)) = Inr [r]"
  using assms filter_distinct_key[of "\<lambda>r. r ''id''" rows r "Some (VInt64 i)"]
  by (simp add: sql_select_def sql_eq_index keyed_table_def)

lemma select_ref:
  assumes "db t = Some rows" "keyed_table rows" "r \<in> set rows" "r ''reference_id'' = Some (VString s)"
  shows "sql_select db t (\<lambda>r. sql_eq (index_map r ''reference_id'') (VString s)) = Inr [r]"
  using assms filter_distinct_key[of "\<lambda>r. r ''reference_id''" rows r "Some (VString s)"]
  by (simp add: sql_select_def sql_eq_index keyed_table_def)

lemma idToRef_present:
  assumes "db t = Some rows" "keyed_table rows" "r \<in> set rows"
    and "r ''id'' = Some (VInt64 i)" "r ''reference_id'' = Some (VString s)"
    and "cache_agrees oc (itr_key t i) (CString s)"
  shows "\<exists>oc'. GetIdToReferenceId d oc db t i = Returned ((s, None), oc')
           \<and> stored_with oc oc' (itr_key t i) (1 * Minute)"
  using assms(4-) select_id[of db t rows r i, OF assms(1-4)]
  by (cases oc)
     (auto simp: GetIdToReferenceId_def cache_agrees_def cache_Get_def QueryRowx_Scan_def
        index_map_def scan_string_def PutIfEx_def stored_with_def Let_def
        split: option.splits)

lemma refToId_present:
  assumes "db t = Some rows" "keyed_table rows" "r \<in> set rows"
    and "r ''id'' = Some (VInt64 i)" "r ''reference_id'' = Some (VString s)"
    and "cache_agrees oc (riti_key t s) (CInt64 i)"
  shows "\<exists>oc'. GetReferenceIdToId d oc db t s = Returned ((i, None), oc')
           \<and> stored_with oc oc' (riti_key t s) (5 * Minute)"
  using assms(4-) select_ref[of db t rows r s, OF assms(1-3) assms(5)]
  by (cases oc)
     (auto simp: GetReferenceIdToId_def cache_agrees_def cache_Get_def QueryRowx_Scan_def
        index_map_def scan_int64_def PutIfEx_def stored_with_def Let_def
        split: option.splits)

lemma stored_with_agrees:
  "stored_with oc oc' k ttl \<Longrightarrow> k \<noteq> k' \<Longrightarrow> cache_agrees oc k' v \<Longrightarrow> cache_agrees oc' k' v"
  by (auto simp: stored_with_def cache_agrees_def cache_Get_def)

lemma itr_t_5: "itr_key ''t'' 5 = ''itr-t-5''"
  by (simp add: itr_key_def FormatInt_def nat_decimal.simps)





text \<open>
  Where the cache holds no entry that disagrees with the table, the two lookups are
  inverse to each other: in a table whose ids and reference ids are unique, for a row
  with id \<open>i\<close> and reference id \<open>s\<close>, and a cache that is absent or holds nothing else
  than \<open>s\<close> under the key of \<open>i\<close> and nothing else than \<open>i\<close> under the key of \<open>s\<close>.
\<close>

lemma id_round_trip_fresh:
  assumes "db t = Some rows" and "keyed_table rows" and "r \<in> set rows"
    and "r ''id'' = Some (VInt64 i)" and "r ''reference_id'' = Some (VString s)"
    and "cache_agrees oc (itr_key t i) (CString s)"
    and "cache_agrees oc (riti_key t s) (CInt64 i)"
  shows "(\<exists>oc1 oc2. GetIdToReferenceId d oc db t i = Returned ((s, None), oc1)
            \<and> GetReferenceIdToId d oc1 db t s = Returned ((i, None), oc2))
       \<and> (\<exists>oc1 oc2. GetReferenceIdToId d oc db t s = Returned ((i, None), oc1)
            \<and> GetIdToReferenceId d oc1 db t i = Returned ((s, None), oc2))"
proof
  from idToRef_present[of db t rows r i s oc d, OF assms(1-6)] obtain oc1 where
    1: "GetIdToReferenceId d oc db t i = Returned ((s, None), oc1)"
    and "stored_with oc oc1 (itr_key t i) (1 * Minute)" by blast
  then have "cache_agrees oc1 (riti_key t s) (CInt64 i)"
    using stored_with_agrees[OF _ itr_ne_riti assms(7)] by blast
  from refToId_present[of db t rows r i s oc1 d, OF assms(1-5) this] 1
  show "\<exists>oc1 oc2. GetIdToReferenceId d oc db t i = Returned ((s, None), oc1)
            \<and> GetReferenceIdToId d oc1 db t s = Returned ((i, None), oc2)" by blast
next
  from refToId_present[of db t rows r i s oc d, OF assms(1-5) assms(7)] obtain oc1 where
    1: "GetReferenceIdToId d oc db t s = Returned ((i, None), oc1)"
    and "stored_with oc oc1 (riti_key t s) (5 * Minute)" by blast
  then have "cache_agrees oc1 (itr_key t i) (CString s)"
    using stored_with_agrees[OF _ itr_ne_riti[symmetric] assms(6)] by blast
  from idToRef_present[of db t rows r i s oc1 d, OF assms(1-5) this] 1
  show "\<exists>oc1 oc2. GetReferenceIdToId d oc db t s = Returned ((i, None), oc1)
            \<and> GetIdToReferenceId d oc1 db t i = Returned ((s, None), oc2)" by blast
qed

text \<open>
  C7. The round trip fails on a row that was looked up before it existed. The lookup of
  id 5 in the empty table returns an error and yet stores the empty string under
  \<^verbatim>\<open>itr-t-5\<close>. Once the row is there, \<open>GetIdToReferenceId\<close> answers the empty string with a
  nil error, and \<open>GetReferenceIdToId\<close> of that answer finds no row, so the id does not
  come back. The sibling \<open>GetReferenceIdToIdWithTransaction\<close> stores a value only when
  its scan succeeded: after a failed lookup it leaves the cache empty.
\<close>

theorem C7_stale_reference:
  "GetIdToReferenceId S2_resource (Some Map.empty) [''t'' \<mapsto> []] ''t'' 5
     = Returned (([], Some ErrNoRows), Some [''itr-t-5'' \<mapsto> (CString [], 1 * Minute)])
   \<and> GetIdToReferenceId S2_resource (Some [''itr-t-5'' \<mapsto> (CString [], 1 * Minute)])
        [''t'' \<mapsto> [[''id'' \<mapsto> VInt64 5, ''reference_id'' \<mapsto> VString ''r'']]] ''t'' 5
     = Returned (([], None), Some [''itr-t-5'' \<mapsto> (CString [], 1 * Minute)])
   \<and> GetReferenceIdToId S2_resource (Some [''itr-t-5'' \<mapsto> (CString [], 1 * Minute)])
        [''t'' \<mapsto> [[''id'' \<mapsto> VInt64 5, ''reference_id'' \<mapsto> VString ''r'']]] ''t'' []
     = Returned ((0, Some ErrNoRows),
         Some [''itr-t-5'' \<mapsto> (CString [], 1 * Minute), ''riti-t-'' \<mapsto> (CInt64 0, 5 * Minute)])
   \<and> GetReferenceIdToIdWithTransaction S2_resource (Some Map.empty) [''t'' \<mapsto> []] ''t'' ''r''
     = Returned ((0, Some ErrNoRows), Some Map.empty)"
  by (simp add: GetIdToReferenceId_def GetReferenceIdToId_def
      GetReferenceIdToIdWithTransaction_def itr_t_5 riti_key_def cache_Get_def
      sql_select_def QueryRowx_Scan_def PutIfEx_def sql_eq_def index_map_def)

section \<open>Becoming the administrator\<close>

lemma sql_update_other:
  "sql_update db t cond record = Inr db' \<Longrightarrow> t' \<noteq> t \<Longrightarrow> db' t' = db t'"
  by (auto simp: sql_update_def split: option.splits)

lemma sql_insert_other:
  "sql_insert db t record = Inr db' \<Longrightarrow> t' \<noteq> t \<Longrightarrow> db' t' = db t'"
  by (auto simp: sql_insert_def split: option.splits)

lemma sql_insert_same:
  "sql_insert db t record = Inr db' \<Longrightarrow> \<exists>rows. db t = Some rows \<and> db' t = Some (rows @ [map_of record])"
  by (auto simp: sql_insert_def split: option.splits)

lemma own_rows_shape:
  "\<exists>f. keeps_columns f \<and> own_rows d u m db t = map_option (map f) (db t)"
proof (cases "own_rows d u m db t = db t")
  case True
  have "keeps_columns (\<lambda>r. r)" by (simp add: keeps_columns_def)
  moreover have "map_option (map (\<lambda>r. r)) (db t) = db t" by (cases "db t") simp_all
  ultimately show ?thesis using True by metis
next
  case False
  let ?f = "\<lambda>r. r ++ map_of [(USER_ACCOUNT_ID_COLUMN, VInt64 u),
                 (''permission'', VInt64 (DEFAULT_PERMISSION d))]"
  have k: "keeps_columns ?f"
    by (simp add: keeps_columns_def USER_ACCOUNT_ID_COLUMN_def map_add_def)
  from False have "own_rows d u m db t = map_option (map ?f) (db t)"
    by (auto simp: own_rows_def sql_update_def split: if_splits option.splits)
  with k show ?thesis by blast
qed

lemma keeps_columns_comp: "keeps_columns f \<Longrightarrow> keeps_columns g \<Longrightarrow> keeps_columns (g \<circ> f)"
  by (simp add: keeps_columns_def)

lemma fold_own_rows_shape:
  "\<exists>f. keeps_columns f \<and> fold (own_rows d u) ms db t = map_option (map f) (db t)"
proof (induction ms arbitrary: db)
  case Nil
  have "keeps_columns (\<lambda>r. r)" by (simp add: keeps_columns_def)
  moreover have "map_option (map (\<lambda>r. r)) (db t) = db t" by (cases "db t") simp_all
  ultimately show ?case by (metis fold_simps(1))
next
  case (Cons m ms)
  from Cons.IH[of "own_rows d u m db"] obtain g where
    g: "keeps_columns g"
       "fold (own_rows d u) ms (own_rows d u m db) t = map_option (map g) (own_rows d u m db t)"
    by blast
  from own_rows_shape[of d u m db t] obtain f where
    f: "keeps_columns f" "own_rows d u m db t = map_option (map f) (db t)" by blast
  have "fold (own_rows d u) (m # ms) db t = map_option (map (g \<circ> f)) (db t)"
    using f(2) g(2) by (cases "db t") simp_all
  with keeps_columns_comp[OF f(1) g(1)] show ?case by blast
qed

lemma keeps_index:
  "keeps_columns f \<Longrightarrow> c \<noteq> ''user_account_id'' \<Longrightarrow> c \<noteq> ''permission'' \<Longrightarrow>
     index_map (f r) c = index_map r c"
  by (simp add: keeps_columns_def index_map_def)

lemma exec_logged_update:
  "exec_logged db (sql_update db t cond record) t'
     = (if t' = t then map_option (map (\<lambda>r. if cond r then r ++ map_of record else r)) (db t)
        else db t')"
  by (auto simp: exec_logged_def sql_update_def split: option.splits)

lemma BecomeAdmin_success:
  assumes "BecomeAdmin d conn tx ref u = (True, tx')"
  obtains db1 db2 db3 where
    "CanBecomeAdmin d conn"
    and "db1 = fold (own_rows d u) (map snd (Cruds d)) tx"
    and "sql_insert db1 ''user_account_user_account_id_has_usergroup_usergroup_id''
                  [(USER_ACCOUNT_ID_COLUMN, VInt64 u),
                   (''usergroup_id'',
                    VInt64 (fst (UserGroupNameToIdWithTransaction d db1 ''administrators''))),
                   (''permission'', VInt64 (DEFAULT_PERMISSION d)),
                   (''reference_id'', VString ref)] = Inr db2"
    and "sql_update db2 ''world'' (not_audit_table d)
                       [(''permission'', VInt64 (DEFAULT_PERMISSION d)),
                        (''default_permission'', VInt64 (DEFAULT_PERMISSION d))] = Inr db3"
    and "tx' ''action'' = map_option (map
           ((\<lambda>r. if sql_eq (index_map r ''action_name'') (VString ''signin'')
                  then r ++ map_of [(''permission'',
                                VInt64 (GuestPeek OR GuestExecute OR UserRead OR UserExecute
                                        OR GroupRead OR GroupExecute))] else r)
            \<circ> (\<lambda>r. r ++ map_of [(''permission'',
                                VInt64 (UserRead OR UserExecute OR GroupCRUD OR GroupExecute
                                        OR GroupRefer))]))) (db3 ''action'')"
    and "\<And>t. t \<noteq> ''action'' \<Longrightarrow> t \<noteq> ''world'' \<Longrightarrow> tx' t = db3 t"
proof -
  from assms have can: "CanBecomeAdmin d conn"
    by (auto simp: BecomeAdmin_def split: if_splits)
  define db1 where "db1 = fold (own_rows d u) (map snd (Cruds d)) tx"
  from assms can obtain db2 where
    ins: "sql_insert db1 ''user_account_user_account_id_has_usergroup_usergroup_id''
                  [(USER_ACCOUNT_ID_COLUMN, VInt64 u),
                   (''usergroup_id'',
                    VInt64 (fst (UserGroupNameToIdWithTransaction d db1 ''administrators''))),
                   (''permission'', VInt64 (DEFAULT_PERMISSION d)),
                   (''reference_id'', VString ref)] = Inr db2"
    by (auto simp: BecomeAdmin_def db1_def Let_def split_beta split: sum.splits)
  from assms can ins obtain db3 where
    upd: "sql_update db2 ''world'' (not_audit_table d)
                       [(''permission'', VInt64 (DEFAULT_PERMISSION d)),
                        (''default_permission'', VInt64 (DEFAULT_PERMISSION d))] = Inr db3"
    by (auto simp: BecomeAdmin_def db1_def Let_def split_beta split: sum.splits)
  from assms can ins upd have tx': "tx' =
     (let db4 = exec_logged db3
                           (sql_update db3 ''world'' (is_audit_table d)
                              [(''permission'', VInt64 (UserCreate OR GroupCreate)),
                               (''default_permission'', VInt64 (UserRead OR GroupRead))]);
                         db5 = exec_logged db4
                           (sql_update db4 ''action'' (\<lambda>r. True)
                              [(''permission'',
                                VInt64 (UserRead OR UserExecute OR GroupCRUD OR GroupExecute
                                        OR GroupRefer))]);
                         db6 = exec_logged db5
                           (sql_update db5 ''action''
                              (\<lambda>r. sql_eq (index_map r ''action_name'') (VString ''signin''))
                              [(''permission'',
                                VInt64 (GuestPeek OR GuestExecute OR UserRead OR UserExecute
                                        OR GroupRead OR GroupExecute))])
                     in db6)"
    by (simp add: BecomeAdmin_def db1_def Let_def split_beta)
  have a: "tx' ''action'' = map_option (map
           ((\<lambda>r. if sql_eq (index_map r ''action_name'') (VString ''signin'')
                  then r ++ map_of [(''permission'',
                                VInt64 (GuestPeek OR GuestExecute OR UserRead OR UserExecute
                                        OR GroupRead OR GroupExecute))] else r)
            \<circ> (\<lambda>r. r ++ map_of [(''permission'',
                                VInt64 (UserRead OR UserExecute OR GroupCRUD OR GroupExecute
                                        OR GroupRefer))]))) (db3 ''action'')"
    unfolding tx' Let_def
    by (simp only: exec_logged_update) (simp add: option.map_comp)
  have b: "\<And>t. t \<noteq> ''action'' \<Longrightarrow> t \<noteq> ''world'' \<Longrightarrow> tx' t = db3 t"
    unfolding tx' Let_def by (simp only: exec_logged_update) simp
  from that[OF can db1_def ins upd a b] show thesis .
qed

lemma members_nonempty:
  assumes "db ''user_account_user_account_id_has_usergroup_usergroup_id'' = Some uus"
    and "db ''user_account'' = Some us" and "db ''usergroup'' = Some gs"
    and "uu \<in> set uus" and "g \<in> set gs"
    and "sql_eq (index_map uu ''usergroup_id'') (index_map g ''id'')"
    and "sql_eq (index_map g ''name'') (VString n)"
  shows "\<exists>l. GetUserMembersByGroupName d db n = Some l \<and> l \<noteq> []"
proof -
  let ?per = "\<lambda>uu.
               let joined = filter (\<lambda>u. sql_eq (index_map uu ''user_account_id'') (index_map u ''id'')) us;
                   joined_u = (if joined = [] then [Map.empty] else joined);
                   joined_g = filter (\<lambda>g. sql_eq (index_map uu ''usergroup_id'') (index_map g ''id'')
                                         \<and> sql_eq (index_map g ''name'') (VString n)) gs
               in concat (map
                    (\<lambda>u. map (\<lambda>g. case scan_string (FormatFloat d)
                                           (index_map u ''reference_id'') of
                                      Inl e \<Rightarrow> [] | Inr refId \<Rightarrow> refId) joined_g)
                    joined_u)"
  have g: "filter (\<lambda>g. sql_eq (index_map uu ''usergroup_id'') (index_map g ''id'')
                                         \<and> sql_eq (index_map g ''name'') (VString n)) gs \<noteq> []"
    using assms(5-7) by (auto simp: filter_empty_conv)
  have "?per uu \<noteq> []"
    using g by (auto simp: Let_def)
  moreover have "uu \<in> set (sort_key created_at uus)" using assms(4) by simp
  ultimately have "concat (map ?per (sort_key created_at uus)) \<noteq> []"
    by (metis (no_types, lifting) concat_eq_Nil_conv image_eqI list.set_map)
  then show ?thesis
    using assms(1-3) by (simp add: GetUserMembersByGroupName_def usergroup_join_table_def)
qed

lemma filter_keeps:
  assumes "\<And>r. P (f r) = P r"
  shows "filter P (map f rows) = map f (filter P rows)"
  using assms by (induction rows) simp_all

lemma group_lookup_kept:
  assumes "keeps_columns f" and "db1 ''usergroup'' = map_option (map f) (db ''usergroup'')"
  shows "UserGroupNameToIdWithTransaction d db1 n = UserGroupNameToIdWithTransaction d db n"
proof (cases "db ''usergroup''")
  case None
  with assms show ?thesis by (simp add: UserGroupNameToIdWithTransaction_def sql_select_def)
next
  case (Some gs)
  let ?P = "\<lambda>r. sql_eq (index_map r ''name'') (VString n)"
  have P: "\<And>r. ?P (f r) = ?P r" using assms(1) by (simp add: keeps_index)
  have "filter ?P (map f gs) = map f (filter ?P gs)" by (rule filter_keeps) (rule P)
  moreover have "QueryRowx_Scan (map f (filter ?P gs)) ''id'' (scan_uint64 (FormatFloat d)) 0
      = QueryRowx_Scan (filter ?P gs) ''id'' (scan_uint64 (FormatFloat d)) 0"
    using assms(1) by (cases "filter ?P gs") (simp_all add: QueryRowx_Scan_def keeps_index)
  ultimately show ?thesis using Some assms(2)
    by (simp add: UserGroupNameToIdWithTransaction_def sql_select_def)
qed

lemma group_lookup_found:
  assumes "UserGroupNameToIdWithTransaction d db n = (gid, None)"
    and "\<forall>gs g. db ''usergroup'' = Some gs \<longrightarrow> g \<in> set gs \<longrightarrow> (\<exists>i. index_map g ''id'' = VInt64 i)"
  shows "\<exists>gs g. db ''usergroup'' = Some gs \<and> g \<in> set gs \<and> index_map g ''id'' = VInt64 gid
           \<and> sql_eq (index_map g ''name'') (VString n)"
proof -
  let ?P = "\<lambda>r. sql_eq (index_map r ''name'') (VString n)"
  from assms(1) obtain gs where gs: "db ''usergroup'' = Some gs"
    by (auto simp: UserGroupNameToIdWithTransaction_def sql_select_def split: option.splits)
  with assms(1) have q: "QueryRowx_Scan (filter ?P gs) ''id'' (scan_uint64 (FormatFloat d)) 0
      = (gid, None)"
    by (simp add: UserGroupNameToIdWithTransaction_def sql_select_def)
  then obtain g rest where f: "filter ?P gs = g # rest"
    by (cases "filter ?P gs") (auto simp: QueryRowx_Scan_def)
  then have "g \<in> set (filter ?P gs)" by simp
  then have m: "g \<in> set gs" "?P g" by auto
  with assms(2) gs obtain i where i: "index_map g ''id'' = VInt64 i" by blast
  with q f have "i = gid"
    by (auto simp: QueryRowx_Scan_def scan_uint64_def split: sum.splits if_splits)
  with i gs m show ?thesis by blast
qed

lemmas bit_defs = GuestPeek_def GuestExecute_def UserRead_def UserExecute_def GroupRead_def
  GroupExecute_def GroupCRUD_def GroupRefer_def GroupCreate_def GroupUpdate_def GroupDelete_def
  UserCreate_def

lemmas S1_eval = BecomeAdmin_def S1_db_def S1_no_group_def S1_resource_def CanBecomeAdmin_def
  GetAdminReferenceId_def GetUserMembersByGroupName_def usergroup_join_table_def
  UserGroupNameToIdWithTransaction_def own_rows_def HasColumn_def
  sql_select_def sql_insert_def sql_update_def exec_logged_def QueryRowx_Scan_def scan_uint64_def
  scan_string_def sql_eq_def index_map_def USER_ACCOUNT_ID_COLUMN_def created_at_def Let_def

lemma S1_becomes_admin: "fst (BecomeAdmin S1_resource S1_db S1_db ''m-1'' 1) = True"
  by (simp add: S1_eval)

lemma signin_bits:
  "permits (GuestPeek OR GuestExecute OR UserRead OR UserExecute OR GroupRead OR GroupExecute)
     (GuestPeek OR GuestExecute)
   \<and> \<not> permits (GuestPeek OR GuestExecute OR UserRead OR UserExecute OR GroupRead OR GroupExecute)
         (UserRead OR UserExecute OR GroupCRUD OR GroupExecute OR GroupRefer)"
  by (simp add: permits_def bit_defs)

lemma own_rows_join:
  "own_rows d u m db ''user_account_user_account_id_has_usergroup_usergroup_id''
     = db ''user_account_user_account_id_has_usergroup_usergroup_id''"
  by (auto simp: own_rows_def sql_update_def split: if_splits option.splits)

lemma fold_own_rows_join:
  "fold (own_rows d u) ms db ''user_account_user_account_id_has_usergroup_usergroup_id''
     = db ''user_account_user_account_id_has_usergroup_usergroup_id''"
  by (induction ms arbitrary: db) (simp_all add: own_rows_join)

lemma BecomeAdmin_returns_true:
  assumes "CanBecomeAdmin d conn"
    and "tx ''user_account_user_account_id_has_usergroup_usergroup_id'' \<noteq> None"
    and "tx ''world'' \<noteq> None"
  shows "fst (BecomeAdmin d conn tx ref u) = True"
proof -
  let ?join = "''user_account_user_account_id_has_usergroup_usergroup_id''"
  define db1 where "db1 = fold (own_rows d u) (map snd (Cruds d)) tx"
  have j: "db1 ?join \<noteq> None"
    using assms(2) by (simp add: db1_def fold_own_rows_join)
  obtain f where "db1 ''world'' = map_option (map f) (tx ''world'')"
    using fold_own_rows_shape[of d u "map snd (Cruds d)" tx "''world''"] db1_def by blast
  with assms(3) have w: "db1 ''world'' \<noteq> None" by auto
  from j obtain db2 where
    ins: "sql_insert db1 ?join
                  [(USER_ACCOUNT_ID_COLUMN, VInt64 u),
                   (''usergroup_id'',
                    VInt64 (fst (UserGroupNameToIdWithTransaction d db1 ''administrators''))),
                   (''permission'', VInt64 (DEFAULT_PERMISSION d)),
                   (''reference_id'', VString ref)] = Inr db2"
    by (auto simp: sql_insert_def)
  from sql_insert_other[OF ins, of "''world''"] w have "db2 ''world'' \<noteq> None" by simp
  then obtain db3 where
    upd: "sql_update db2 ''world'' (not_audit_table d)
                       [(''permission'', VInt64 (DEFAULT_PERMISSION d)),
                        (''default_permission'', VInt64 (DEFAULT_PERMISSION d))] = Inr db3"
    by (auto simp: sql_update_def)
  from assms(1) ins upd show ?thesis
    by (simp add: BecomeAdmin_def db1_def[symmetric] Let_def split_beta)
qed

text \<open>
  What the code gets right. A call that finds an administrator through the connection
  returns false and writes nothing. And a call that returns true, in a transaction in
  which the \<^verbatim>\<open>administrators\<close> group is found, the ids of the groups are integers and
  the \<^verbatim>\<open>user_account\<close> table exists, leaves a member of the group in the state of the
  transaction: once that is committed, \<open>CanBecomeAdmin\<close> is false.
\<close>

lemma BecomeAdmin_refused:
  "\<not> CanBecomeAdmin d conn \<Longrightarrow> BecomeAdmin d conn tx ref u = (False, tx)"
  by (simp add: BecomeAdmin_def)

lemma admin_established:
  assumes "BecomeAdmin d conn tx ref u = (True, tx')"
    and "snd (UserGroupNameToIdWithTransaction d tx ''administrators'') = None"
    and "\<forall>gs g. tx ''usergroup'' = Some gs \<longrightarrow> g \<in> set gs \<longrightarrow> (\<exists>i. index_map g ''id'' = VInt64 i)"
    and "tx ''user_account'' \<noteq> None"
  shows "\<not> CanBecomeAdmin d tx'"
proof -
  from assms(1) obtain db1 db2 db3 where
    can: "CanBecomeAdmin d conn" and
    db1: "db1 = fold (own_rows d u) (map snd (Cruds d)) tx"
    and ins: "sql_insert db1 ''user_account_user_account_id_has_usergroup_usergroup_id''
                  [(USER_ACCOUNT_ID_COLUMN, VInt64 u),
                   (''usergroup_id'',
                    VInt64 (fst (UserGroupNameToIdWithTransaction d db1 ''administrators''))),
                   (''permission'', VInt64 (DEFAULT_PERMISSION d)),
                   (''reference_id'', VString ref)] = Inr db2"
    and upd: "sql_update db2 ''world'' (not_audit_table d)
                       [(''permission'', VInt64 (DEFAULT_PERMISSION d)),
                        (''default_permission'', VInt64 (DEFAULT_PERMISSION d))] = Inr db3"
    and act: "tx' ''action'' = map_option (map
           ((\<lambda>r. if sql_eq (index_map r ''action_name'') (VString ''signin'')
                  then r ++ map_of [(''permission'',
                                VInt64 (GuestPeek OR GuestExecute OR UserRead OR UserExecute
                                        OR GroupRead OR GroupExecute))] else r)
            \<circ> (\<lambda>r. r ++ map_of [(''permission'',
                                VInt64 (UserRead OR UserExecute OR GroupCRUD OR GroupExecute
                                        OR GroupRefer))]))) (db3 ''action'')"
    and rest: "\<And>t. t \<noteq> ''action'' \<Longrightarrow> t \<noteq> ''world'' \<Longrightarrow> tx' t = db3 t"
    by (rule BecomeAdmin_success) (rule that)
  let ?join = "''user_account_user_account_id_has_usergroup_usergroup_id''"
  have same: "\<And>t. t \<noteq> ''action'' \<Longrightarrow> t \<noteq> ''world'' \<Longrightarrow> t \<noteq> ?join \<Longrightarrow> tx' t = db1 t"
    using rest sql_update_other[OF upd] sql_insert_other[OF ins] by simp
  obtain f where f: "keeps_columns f" "db1 ''usergroup'' = map_option (map f) (tx ''usergroup'')"
    using fold_own_rows_shape[of d u "map snd (Cruds d)" tx "''usergroup''"] db1 by blast
  obtain h where h: "db1 ''user_account'' = map_option (map h) (tx ''user_account'')"
    using fold_own_rows_shape[of d u "map snd (Cruds d)" tx "''user_account''"] db1 by blast
  obtain gid where gid: "UserGroupNameToIdWithTransaction d db1 ''administrators'' = (gid, None)"
    using group_lookup_kept[of f db1 tx d "''administrators''", OF f] assms(2)
    by (cases "UserGroupNameToIdWithTransaction d tx ''administrators''") simp
  have ints: "\<forall>gs g. db1 ''usergroup'' = Some gs \<longrightarrow> g \<in> set gs
                \<longrightarrow> (\<exists>i. index_map g ''id'' = VInt64 i)"
  proof (intro allI impI)
    fix gs g assume a: "db1 ''usergroup'' = Some gs" "g \<in> set gs"
    with f(2) obtain gs0 where gs0: "tx ''usergroup'' = Some gs0" "gs = map f gs0"
      by (cases "tx ''usergroup''") auto
    with a(2) obtain g0 where g0: "g0 \<in> set gs0" "g = f g0" by auto
    with gs0(1) assms(3) obtain i where "index_map g0 ''id'' = VInt64 i" by blast
    with g0(2) f(1) show "\<exists>i. index_map g ''id'' = VInt64 i" by (simp add: keeps_index)
  qed
  from group_lookup_found[OF gid ints] obtain gs g where
    g: "db1 ''usergroup'' = Some gs" "g \<in> set gs" "index_map g ''id'' = VInt64 gid"
       "sql_eq (index_map g ''name'') (VString ''administrators'')" by blast
  from h assms(4) obtain us where us: "db1 ''user_account'' = Some us" by auto
  from sql_insert_same[OF ins] gid obtain uus where
    "db2 ?join = Some (uus @ [map_of [(USER_ACCOUNT_ID_COLUMN, VInt64 u),
                   (''usergroup_id'', VInt64 gid),
                   (''permission'', VInt64 (DEFAULT_PERMISSION d)),
                   (''reference_id'', VString ref)]])" by auto
  then have j: "tx' ?join = Some (uus @ [map_of [(USER_ACCOUNT_ID_COLUMN, VInt64 u),
                   (''usergroup_id'', VInt64 gid),
                   (''permission'', VInt64 (DEFAULT_PERMISSION d)),
                   (''reference_id'', VString ref)]])"
    using rest[of ?join] sql_update_other[OF upd, of ?join] by simp
  have ug: "tx' ''usergroup'' = Some gs" using same[of "''usergroup''"] g(1) by simp
  have ua: "tx' ''user_account'' = Some us" using same[of "''user_account''"] us by simp
  let ?new = "map_of [(USER_ACCOUNT_ID_COLUMN, VInt64 u),
                   (''usergroup_id'', VInt64 gid),
                   (''permission'', VInt64 (DEFAULT_PERMISSION d)),
                   (''reference_id'', VString ref)]"
  have n1: "?new \<in> set (uus @ [?new])" by simp
  have n2: "sql_eq (index_map ?new ''usergroup_id'') (index_map g ''id'')"
    unfolding g(3) by (simp add: sql_eq_def index_map_def USER_ACCOUNT_ID_COLUMN_def)
  have "\<exists>l. GetUserMembersByGroupName d tx' ''administrators'' = Some l \<and> l \<noteq> []"
    by (rule members_nonempty[OF j ua ug n1 g(2) n2 g(4)])
  then show ?thesis
    by (auto simp: CanBecomeAdmin_def GetAdminReferenceId_def)
qed

text \<open>
  C2. The property fails on the code. Where no \<^verbatim>\<open>administrators\<close> group exists, the
  error of the group lookup is dropped, the membership row is inserted with the group
  id 0, and \<open>BecomeAdmin\<close> returns true; no member of \<^verbatim>\<open>administrators\<close> has been added, so
  once the transaction is committed \<open>CanBecomeAdmin\<close> still returns true and a second
  call of \<open>BecomeAdmin\<close> returns true as well. And where the group exists (scenario S1),
  \<open>CanBecomeAdmin\<close> and a second \<open>BecomeAdmin\<close> read through the connection, which does
  not see the member until the transaction is committed: both still return true.
\<close>

theorem C2_admin_twice:
  "fst (BecomeAdmin S1_resource S1_no_group S1_no_group ''m-1'' 1) = True
   \<and> CanBecomeAdmin S1_resource (snd (BecomeAdmin S1_resource S1_no_group S1_no_group ''m-1'' 1))
   \<and> fst (BecomeAdmin S1_resource
            (snd (BecomeAdmin S1_resource S1_no_group S1_no_group ''m-1'' 1))
            (snd (BecomeAdmin S1_resource S1_no_group S1_no_group ''m-1'' 1)) ''m-2'' 2) = True
   \<and> fst (BecomeAdmin S1_resource S1_db S1_db ''m-1'' 1) = True
   \<and> CanBecomeAdmin S1_resource S1_db
   \<and> fst (BecomeAdmin S1_resource S1_db
            (snd (BecomeAdmin S1_resource S1_db S1_db ''m-1'' 1)) ''m-2'' 2) = True
   \<and> \<not> CanBecomeAdmin S1_resource (snd (BecomeAdmin S1_resource S1_db S1_db ''m-1'' 1))"
proof -
  let ?join = "''user_account_user_account_id_has_usergroup_usergroup_id''"
  let ?X = "snd (BecomeAdmin S1_resource S1_no_group S1_no_group ''m-1'' 1)"
  let ?Y = "snd (BecomeAdmin S1_resource S1_db S1_db ''m-1'' 1)"
  have 1: "fst (BecomeAdmin S1_resource S1_no_group S1_no_group ''m-1'' 1) = True"
    by (simp add: S1_eval)
  have 2: "CanBecomeAdmin S1_resource ?X"
    by (simp add: S1_eval)
  have x: "?X ?join \<noteq> None" "?X ''world'' \<noteq> None"
    by (simp_all add: S1_eval)
  have 3: "fst (BecomeAdmin S1_resource ?X ?X ''m-2'' 2) = True"
    using 2 x by (rule BecomeAdmin_returns_true)
  have 4: "fst (BecomeAdmin S1_resource S1_db S1_db ''m-1'' 1) = True"
    by (simp add: S1_eval)
  have 5: "CanBecomeAdmin S1_resource S1_db"
    by (simp add: S1_eval)
  have y: "?Y ?join \<noteq> None" "?Y ''world'' \<noteq> None"
    by (simp_all add: S1_eval)
  have 6: "fst (BecomeAdmin S1_resource S1_db ?Y ''m-2'' 2) = True"
    using 5 y by (rule BecomeAdmin_returns_true)
  have 7: "\<not> CanBecomeAdmin S1_resource ?Y"
    by (simp add: S1_eval)
  from 1 2 3 4 5 6 7 show ?thesis by - (intro conjI, assumption+)
qed

text \<open>
  C5, as the code has it. When \<open>BecomeAdmin\<close> returns true, every row of the \<^verbatim>\<open>action\<close>
  table has the permission \<^verbatim>\<open>UserRead|UserExecute|GroupCRUD|GroupExecute|GroupRefer\<close>,
  but for the rows of the action \<^verbatim>\<open>signin\<close>, which have
  \<^verbatim>\<open>GuestPeek|GuestExecute|UserRead|UserExecute|GroupRead|GroupExecute\<close>: that value has
  the two guest bits and is not a superset of the other.
\<close>

theorem C5_action_permissions:
  assumes "BecomeAdmin d conn tx ref u = (True, tx')" and "tx ''action'' = Some rows"
  shows "\<exists>rows'. tx' ''action'' = Some rows'
      \<and> map (\<lambda>r. index_map r ''permission'') rows'
          = map (\<lambda>r. VInt64
                  (if sql_eq (index_map r ''action_name'') (VString ''signin'')
                   then GuestPeek OR GuestExecute OR UserRead OR UserExecute OR GroupRead OR GroupExecute
                   else UserRead OR UserExecute OR GroupCRUD OR GroupExecute OR GroupRefer)) rows
      \<and> permits (GuestPeek OR GuestExecute OR UserRead OR UserExecute OR GroupRead OR GroupExecute)
            (GuestPeek OR GuestExecute)
      \<and> \<not> permits (GuestPeek OR GuestExecute OR UserRead OR UserExecute OR GroupRead OR GroupExecute)
            (UserRead OR UserExecute OR GroupCRUD OR GroupExecute OR GroupRefer)"
proof -
  from assms(1) obtain db1 db2 db3 where
    can: "CanBecomeAdmin d conn" and
    db1: "db1 = fold (own_rows d u) (map snd (Cruds d)) tx"
    and ins: "sql_insert db1 ''user_account_user_account_id_has_usergroup_usergroup_id''
                  [(USER_ACCOUNT_ID_COLUMN, VInt64 u),
                   (''usergroup_id'',
                    VInt64 (fst (UserGroupNameToIdWithTransaction d db1 ''administrators''))),
                   (''permission'', VInt64 (DEFAULT_PERMISSION d)),
                   (''reference_id'', VString ref)] = Inr db2"
    and upd: "sql_update db2 ''world'' (not_audit_table d)
                       [(''permission'', VInt64 (DEFAULT_PERMISSION d)),
                        (''default_permission'', VInt64 (DEFAULT_PERMISSION d))] = Inr db3"
    and act: "tx' ''action'' = map_option (map
           ((\<lambda>r. if sql_eq (index_map r ''action_name'') (VString ''signin'')
                  then r ++ map_of [(''permission'',
                                VInt64 (GuestPeek OR GuestExecute OR UserRead OR UserExecute
                                        OR GroupRead OR GroupExecute))] else r)
            \<circ> (\<lambda>r. r ++ map_of [(''permission'',
                                VInt64 (UserRead OR UserExecute OR GroupCRUD OR GroupExecute
                                        OR GroupRefer))]))) (db3 ''action'')"
    and rest: "\<And>t. t \<noteq> ''action'' \<Longrightarrow> t \<noteq> ''world'' \<Longrightarrow> tx' t = db3 t"
    by (rule BecomeAdmin_success) (rule that)
  obtain f where f: "keeps_columns f" "db1 ''action'' = map_option (map f) (tx ''action'')"
    using fold_own_rows_shape[of d u "map snd (Cruds d)" tx "''action''"] db1 by blast
  have "db3 ''action'' = db1 ''action''"
    using sql_update_other[OF upd, of "''action''"] sql_insert_other[OF ins, of "''action''"] by simp
  with f(2) assms(2) have "db3 ''action'' = Some (map f rows)" by simp
  with act have 1: "tx' ''action'' = Some (map
           ((\<lambda>r. if sql_eq (index_map r ''action_name'') (VString ''signin'')
                  then r ++ map_of [(''permission'',
                                VInt64 (GuestPeek OR GuestExecute OR UserRead OR UserExecute
                                        OR GroupRead OR GroupExecute))] else r)
            \<circ> (\<lambda>r. r ++ map_of [(''permission'',
                                VInt64 (UserRead OR UserExecute OR GroupCRUD OR GroupExecute
                                        OR GroupRefer))]) \<circ> f) rows)"
    by simp
  have k: "\<And>r. index_map (f r) ''action_name'' = index_map r ''action_name''"
    using f(1) by (simp add: keeps_index)
  show ?thesis
    unfolding 1 using k signin_bits by (simp add: index_map_def map_add_def)
qed

theorem C5_action_permissions_witness:
  "\<exists>rows'. snd (BecomeAdmin S1_resource S1_db S1_db ''m-1'' 1) ''action'' = Some rows'
      \<and> map (\<lambda>r. index_map r ''permission'') rows'
          = [VInt64 (GuestPeek OR GuestExecute OR UserRead OR UserExecute OR GroupRead OR GroupExecute),
             VInt64 (UserRead OR UserExecute OR GroupCRUD OR GroupExecute OR GroupRefer)]
      \<and> permits (GuestPeek OR GuestExecute OR UserRead OR UserExecute OR GroupRead OR GroupExecute)
            (GuestPeek OR GuestExecute)
      \<and> \<not> permits (GuestPeek OR GuestExecute OR UserRead OR UserExecute OR GroupRead OR GroupExecute)
            (UserRead OR UserExecute OR GroupCRUD OR GroupExecute OR GroupRefer)"
  using C5_action_permissions
    [of S1_resource S1_db S1_db "''m-1''" 1 "snd (BecomeAdmin S1_resource S1_db S1_db ''m-1'' 1)"
        "[[''action_name'' \<mapsto> VString ''signin''], [''action_name'' \<mapsto> VString ''publish'']]"]
    S1_becomes_admin
  by (simp add: prod_eq_iff) (simp add: S1_db_def sql_eq_def index_map_def)

text \<open>
  The property as the specification states it fails: in scenario S1 the \<^verbatim>\<open>signin\<close> row
  ends with 561441, which is not the permission of the other actions (2068736) with the
  two guest bits added.
\<close>

theorem C5_action_permissions_counterexample:
  "fst (BecomeAdmin S1_resource S1_db S1_db ''m-1'' 1) = True
   \<and> map_option (map (\<lambda>r. index_map r ''permission''))
        (snd (BecomeAdmin S1_resource S1_db S1_db ''m-1'' 1) ''action'')
      = Some [VInt64 561441, VInt64 2068736]
   \<and> (561441 :: int)
        \<noteq> (UserRead OR UserExecute OR GroupCRUD OR GroupExecute OR GroupRefer)
             OR GuestPeek OR GuestExecute
   \<and> (UserRead OR UserExecute OR GroupCRUD OR GroupExecute OR GroupRefer) = 2068736"
  by (simp add: S1_eval bit_defs)

section \<open>The action gate\<close>

lemma and_then_Returned:
  "(and_then m f = Returned y) = (\<exists>x. m = Returned x \<and> f x = Returned y)"
  by (cases m) (simp_all add: and_then_def)

text \<open>
  C1. \<open>IsUserActionAllowed\<close> returns \<open>b\<close> exactly when the permission of the type,
  loaded from \<^verbatim>\<open>world\<close> by \<^verbatim>\<open>table_name\<close>, and the permission of the action, loaded from
  \<^verbatim>\<open>action\<close> by \<^verbatim>\<open>action_name\<close>, are both returned and \<open>b\<close> is the conjunction of the two
  \<open>CanExecute\<close> checks of the caller, each on its own permission: true if and only if
  both grant Execute. The same holds of the variant that takes a transaction.
\<close>

theorem C1_action_allowed:
  "(IsUserActionAllowed d oc db u gs typeName actionName = Returned (b, oc'))
     = (\<exists>p oc1 q.
          GetObjectPermissionByWhereClause d oc db ''world'' ''table_name'' typeName
            = Returned (p, oc1)
        \<and> GetObjectPermissionByWhereClause d oc1 db ''action'' ''action_name'' actionName
            = Returned (q, oc')
        \<and> b = (CanExecute p u gs \<and> CanExecute q u gs))
   \<and> (IsUserActionAllowedWithTransaction d oc db u gs typeName actionName = Returned (b, oc'))
     = (\<exists>p oc1 q.
          GetObjectPermissionByWhereClauseWithTransaction d oc db ''world'' ''table_name'' typeName
            = Returned (p, oc1)
        \<and> GetObjectPermissionByWhereClauseWithTransaction d oc1 db ''action'' ''action_name'' actionName
            = Returned (q, oc')
        \<and> b = (CanExecute p u gs \<and> CanExecute q u gs))"
  by (auto simp: IsUserActionAllowed_def IsUserActionAllowedWithTransaction_def
      and_then_Returned Let_def)

lemmas S2_eval = IsUserActionAllowed_def GetObjectPermissionByWhereClause_def
  GetObjectGroupsByObjectId_def GetIdToReferenceId_def object_groups_query_def
  lazy_OlricCache_def cache_Get_def and_then_def assert_int64_def S2_db_def S2_resource_def
  sql_select_def sql_eq_def index_map_def QueryRowx_Scan_def scan_string_def
  USER_ACCOUNT_ID_COLUMN_def USER_ACCOUNT_TABLE_NAME_def CanExecute_def permits_def
  UserRead_def UserExecute_def GroupExecute_def GuestExecute_def Let_def

lemma S2_allowed:
  "IsUserActionAllowed S2_resource None (S2_db UserExecute) ''u-1'' [] ''blog'' ''publish''
     = Returned (True, None)"
  by (simp add: S2_eval)

lemma S2_denied:
  "IsUserActionAllowed S2_resource None (S2_db UserRead) ''u-1'' [] ''blog'' ''publish''
     = Returned (False, None)"
  by (simp add: S2_eval)

theorem C1_action_allowed_witness:
  "(\<exists>p oc1 q.
      GetObjectPermissionByWhereClause S2_resource None (S2_db UserExecute)
          ''world'' ''table_name'' ''blog'' = Returned (p, oc1)
      \<and> GetObjectPermissionByWhereClause S2_resource oc1 (S2_db UserExecute)
          ''action'' ''action_name'' ''publish'' = Returned (q, None)
      \<and> CanExecute p ''u-1'' [] \<and> CanExecute q ''u-1'' [])
   \<and> (\<exists>p oc1 q.
      GetObjectPermissionByWhereClause S2_resource None (S2_db UserRead)
          ''world'' ''table_name'' ''blog'' = Returned (p, oc1)
      \<and> GetObjectPermissionByWhereClause S2_resource oc1 (S2_db UserRead)
          ''action'' ''action_name'' ''publish'' = Returned (q, None)
      \<and> \<not> (CanExecute p ''u-1'' [] \<and> CanExecute q ''u-1'' []))"
  using C1_action_allowed
      [of S2_resource None "S2_db UserExecute" "''u-1''" "[]" "''blog''" "''publish''" True None]
    C1_action_allowed
      [of S2_resource None "S2_db UserRead" "''u-1''" "[]" "''blog''" "''publish''" False None]
    S2_allowed S2_denied
  by simp

section \<open>Loading rows: the cap of the relation loop and the random rows\<close>

lemma each_row_length:
  "each_row body oc rows = Returned (Inr (rows', incls), oc') \<Longrightarrow>
     length rows' = length rows \<and> length incls = length rows"
proof (induction rows arbitrary: oc rows' incls oc')
  case Nil
  then show ?case by simp
next
  case (Cons r rs)
  from Cons.prems obtain res oc1 where 1: "body oc r = Returned (res, oc1)"
    by (cases "body oc r") (auto simp: and_then_def)
  with Cons.prems obtain r' inc where 2: "res = Inr (r', inc)"
    by (cases res) (auto simp: and_then_def)
  from Cons.prems 1 2 obtain res2 oc2 where 3: "each_row body oc1 rs = Returned (res2, oc2)"
    by (cases "each_row body oc1 rs") (auto simp: and_then_def)
  with Cons.prems 1 2 obtain rs' incs where 4: "res2 = Inr (rs', incs)"
    by (cases res2) (auto simp: and_then_def)
  from Cons.prems 1 2 3 4 have "rows' = r' # rs'" "incls = inc # incs"
    by (auto simp: and_then_def)
  with Cons.IH[of oc1 rs' incs oc2] 3 4 show ?case by simp
qed

lemma ResultToArrayOfMap_length:
  "ResultToArrayOfMap d oc db rows columns m = Returned (Inr (rows', incls), oc') \<Longrightarrow>
     length rows' = length rows"
  unfolding ResultToArrayOfMap_def
  by (drule each_row_length) (simp add: RowsToMap_def)

lemma run_random_select_limit:
  "run_random_select db random stmt = Inr selected \<Longrightarrow> Limit stmt = Some n \<Longrightarrow>
     length selected \<le> n"
  by (auto simp: run_random_select_def Let_def split: option.splits)

lemma run_random_select_pred:
  assumes "run_random_select db random stmt = Inr selected" and "r \<in> set selected"
  shows "\<exists>rows n i. db (From stmt) = Some rows \<and> r \<in> set rows \<and> index_map r ''id'' = VInt64 i
           \<and> random n * real_of_int (Max (set (int_ids rows))) \<le> real_of_int i"
proof -
  from assms(1) obtain rows where rows: "db (From stmt) = Some rows"
    by (auto simp: run_random_select_def split: option.splits)
  let ?P = "\<lambda>(n, r). case index_map r ''id'' of
                               VInt64 i \<Rightarrow> int_ids rows \<noteq> []
                                            \<and> random n * real_of_int (Max (set (int_ids rows)))
                                                 \<le> real_of_int i
                             | _ \<Rightarrow> False"
  let ?matching = "map snd (filter ?P (zip [0..<length rows] rows))"
  from assms rows have "r \<in> set ?matching"
    by (auto simp: run_random_select_def Let_def split: option.splits dest: in_set_takeD)
  then obtain n where n: "(n, r) \<in> set (zip [0..<length rows] rows)" "?P (n, r)"
    by auto
  from n(1) have "r \<in> set rows" by (rule set_zip_rightD)
  moreover from n(2) obtain i where "index_map r ''id'' = VInt64 i"
       "random n * real_of_int (Max (set (int_ids rows))) \<le> real_of_int i"
    by (cases "index_map r ''id''") auto
  ultimately show ?thesis using rows by blast
qed



























text \<open>
  C8, as the code has it. For a positive \<open>count\<close>, \<open>GetRandomRow\<close> returns at most
  \<open>count\<close> rows; the rows selected are rows of the table whose id is at least the random
  value times the greatest id; the statement compares \<^verbatim>\<open>id\<close> with the literal
  \<^verbatim>\<open>RANDOM() *  ( SELECT max(id) FROM "<type>" ) \<close>, with \<^verbatim>\<open>RAND()\<close> in place of
  \<^verbatim>\<open>RANDOM()\<close> exactly for the driver \<^verbatim>\<open>mysql\<close>, and is limited to \<open>count\<close>; it depends
  on the resource through nothing but whether the driver is \<^verbatim>\<open>mysql\<close>.
\<close>

theorem C8_random_rows:
  assumes "0 < count'"
    and "GetRandomRow d oc db random typeName count' = Returned ((rows, err), oc')"
  shows "length rows \<le> count'
     \<and> (case run_random_select db random (GetRandomRow_statement d typeName count') of
           Inl e \<Rightarrow> rows = []
         | Inr selected \<Rightarrow>
             length rows \<le> length selected \<and> length selected \<le> count'
             \<and> (\<forall>r \<in> set selected. \<exists>trows n i.
                   db typeName = Some trows \<and> r \<in> set trows \<and> index_map r ''id'' = VInt64 i
                   \<and> random n * real_of_int (Max (set (int_ids trows))) \<le> real_of_int i))
     \<and> GetRandomRow_statement d typeName count'
         = \<lparr>From = typeName,
            id_gte = (if DriverName d = ''mysql'' then ''RAND() * '' else ''RANDOM() * '')
                       @ '' ( SELECT max(id) FROM '' @ [CHR 0x22] @ typeName @ [CHR 0x22] @ '' ) '',
            Limit = Some count'\<rparr>
     \<and> (\<forall>d'. (DriverName d' = ''mysql'') = (DriverName d = ''mysql'') \<longrightarrow>
            GetRandomRow_statement d' typeName count' = GetRandomRow_statement d typeName count')"
proof -
  let ?stmt = "GetRandomRow_statement d typeName count'"
  have lim: "Limit ?stmt = Some count'" and frm: "From ?stmt = typeName"
    using assms(1) by (simp_all add: GetRandomRow_statement_def Let_def)
  have st: "?stmt = \<lparr>From = typeName,
            id_gte = (if DriverName d = ''mysql'' then ''RAND() * '' else ''RANDOM() * '')
                       @ '' ( SELECT max(id) FROM '' @ [CHR 0x22] @ typeName @ [CHR 0x22] @ '' ) '',
            Limit = Some count'\<rparr>"
    using assms(1) by (simp add: GetRandomRow_statement_def Let_def)
  have dial: "\<forall>d'. (DriverName d' = ''mysql'') = (DriverName d = ''mysql'') \<longrightarrow>
            GetRandomRow_statement d' typeName count' = ?stmt"
    by (simp add: GetRandomRow_statement_def Let_def)
  show ?thesis
  proof (cases "run_random_select db random ?stmt")
    case (Inl e)
    with assms(2) have r: "rows = []" by (simp add: GetRandomRow_def)
    then have len: "length rows \<le> count'" by simp
    from r Inl have cp: "case run_random_select db random ?stmt of
           Inl e \<Rightarrow> rows = []
         | Inr selected \<Rightarrow>
             length rows \<le> length selected \<and> length selected \<le> count'
             \<and> (\<forall>r \<in> set selected. \<exists>trows n i.
                   db typeName = Some trows \<and> r \<in> set trows \<and> index_map r ''id'' = VInt64 i
                   \<and> random n * real_of_int (Max (set (int_ids trows))) \<le> real_of_int i)"
      by simp
    from len cp st dial show ?thesis by - (intro conjI, assumption+)
  next
    case (Inr selected)
    have l1: "length selected \<le> count'" by (rule run_random_select_limit[OF Inr lim])
    from assms(2) Inr obtain crud where crud: "map_of (Cruds d) typeName = Some crud"
      by (auto simp: GetRandomRow_def split: option.splits)
    from assms(2) Inr crud obtain res where
      res: "ResultToArrayOfMap d oc db selected typeName Map.empty = Returned (res, oc')"
        and rows: "(rows, err) = (case res of Inl e \<Rightarrow> ([], Some e) | Inr (m1, incls) \<Rightarrow> (m1, None))"
      by (cases "ResultToArrayOfMap d oc db selected typeName Map.empty")
         (auto simp: GetRandomRow_def and_then_def split: sum.splits)
    have l2: "length rows \<le> length selected"
    proof (cases res)
      case (Inl e)
      with rows show ?thesis by simp
    next
      case (Inr p)
      obtain m1 incls where p: "p = (m1, incls)" by (cases p)
      with Inr res have "length m1 = length selected"
        using ResultToArrayOfMap_length by blast
      with Inr p rows show ?thesis by simp
    qed
    have pred: "\<forall>r \<in> set selected. \<exists>trows n i.
                   db typeName = Some trows \<and> r \<in> set trows \<and> index_map r ''id'' = VInt64 i
                   \<and> random n * real_of_int (Max (set (int_ids trows))) \<le> real_of_int i"
      using run_random_select_pred[OF Inr] frm by simp
    from l1 l2 have len: "length rows \<le> count'" by simp
    from l1 l2 pred Inr have cp: "case run_random_select db random ?stmt of
           Inl e \<Rightarrow> rows = []
         | Inr selected \<Rightarrow>
             length rows \<le> length selected \<and> length selected \<le> count'
             \<and> (\<forall>r \<in> set selected. \<exists>trows n i.
                   db typeName = Some trows \<and> r \<in> set trows \<and> index_map r ''id'' = VInt64 i
                   \<and> random n * real_of_int (Max (set (int_ids trows))) \<le> real_of_int i)"
      by simp
    from len cp st dial show ?thesis by - (intro conjI, assumption+)
  qed
qed

lemmas S3_random_eval = GetRandomRow_def GetRandomRow_statement_def run_random_select_def
  ResultToArrayOfMap_def relation_step_def RowsToMap_def int_ids_def included_def
  GetObjectName_def GetSubjectName_def S3_relation_def S3_resource_def S3_db_def
  and_then_def index_map_def Let_def

lemma S3_random_one:
  "GetRandomRow S3_resource None S3_db (\<lambda>n. 1 / 2) ''author'' 1
     = Returned (([[''id'' \<mapsto> VInt64 1, ''reference_id'' \<mapsto> VString ''a-1'',
                    ''__type'' \<mapsto> VString ''author'']], None), None)"
  by (simp add: S3_random_eval upt_rec)

theorem C8_random_rows_witness:
  "length [[''id'' \<mapsto> VInt64 1, ''reference_id'' \<mapsto> VString ''a-1'',
            ''__type'' \<mapsto> VString ''author'']] \<le> (1 :: nat)
   \<and> GetRandomRow_statement S3_resource ''author'' 1
       = \<lparr>From = ''author'',
          id_gte = ''RANDOM() * '' @ '' ( SELECT max(id) FROM '' @ [CHR 0x22] @ ''author''
                     @ [CHR 0x22] @ '' ) '',
          Limit = Some 1\<rparr>"
  using C8_random_rows
    [of 1 S3_resource None S3_db "\<lambda>n. 1 / 2" "''author''"
        "[[''id'' \<mapsto> VInt64 1, ''reference_id'' \<mapsto> VString ''a-1'',
           ''__type'' \<mapsto> VString ''author'']]" None None]
    S3_random_one
  by (simp add: S3_resource_def)

text \<open>
  The property as the specification states it fails for \<open>count = 0\<close>: the builder's
  \<^verbatim>\<open>Limit(0)\<close> clears the \<^verbatim>\<open>LIMIT\<close> clause, and both matching rows are returned.
\<close>

theorem C8_random_rows_counterexample:
  "GetRandomRow S3_resource None S3_db (\<lambda>n. 1 / 2) ''author'' 0
     = Returned (([[''id'' \<mapsto> VInt64 1, ''reference_id'' \<mapsto> VString ''a-1'',
                    ''__type'' \<mapsto> VString ''author''],
                   [''id'' \<mapsto> VInt64 2, ''reference_id'' \<mapsto> VString ''a-2'',
                    ''__type'' \<mapsto> VString ''author'']], None), None)
   \<and> \<not> length [[''id'' \<mapsto> VInt64 1, ''reference_id'' \<mapsto> VString ''a-1'',
                    ''__type'' \<mapsto> VString ''author''],
                   [''id'' \<mapsto> VInt64 2, ''reference_id'' \<mapsto> VString ''a-2'',
                    ''__type'' \<mapsto> VString ''author'']] \<le> (0 :: nat)"
  by (simp add: S3_random_eval upt_rec)

section \<open>The permission of a row: files and the type none\<close>

lemma file_or_none_not_usergroup:
  "BeginsWith rowType ''file.'' \<or> rowType = ''none'' \<Longrightarrow> rowType \<noteq> ''usergroup''"
  by (auto simp: BeginsWith_def)

lemma owner_lookup_no_table:
  assumes "db rowType = None"
  shows "GetReferenceIdToObjectColumn d oc db rowType s c
           = Returned ((VNil, Some (Error ''no such table'')), oc)"
    and "GetReferenceIdToObjectColumnWithTransaction d oc db rowType s c
           = Returned ((VNil, Some (Error ''no such table'')), oc)"
  using assms
  by (simp_all add: GetReferenceIdToObjectColumn_def
      GetReferenceIdToObjectColumnWithTransaction_def sql_select_def)

text \<open>
  C4, as the code has it. For a row whose \<^verbatim>\<open>__type\<close> begins with \<^verbatim>\<open>file.\<close> or is
  \<^verbatim>\<open>none\<close>: once the owner has been determined, \<open>GetRowPermission\<close> returns at once the
  permission with that owner, the bits 0 and exactly one group entry, with empty
  \<^verbatim>\<open>GroupReferenceId\<close>, \<^verbatim>\<open>ObjectReferenceId\<close> and \<^verbatim>\<open>RelationReferenceId\<close> and the bits
  \<^verbatim>\<open>GuestRead\<close>; no group is looked up. The variant with a transaction does the same when
  the cache holds nothing under the key of the row. The owner is determined, without a
  panic, when the row carries \<^verbatim>\<open>user_account_id\<close>, or when its reference id is a string
  and no table has the name of the type.
\<close>

theorem C4_guest_only:
  assumes "index_map row ''__type'' = VString rowType"
    and "BeginsWith rowType ''file.'' \<or> rowType = ''none''"
  shows "(row_owner d oc db row rowType = Returned (uid, oc1) \<longrightarrow>
            GetRowPermission d oc db row
              = Returned (\<lparr>UserId = uid,
                           UserGroupId = [\<lparr>GroupReferenceId = [], ObjectReferenceId = [],
                                            RelationReferenceId = [], Permission = GuestRead\<rparr>],
                           InstancePermission = 0\<rparr>, oc1))
     \<and> (cache_Get oc (row_permission_key d rowType (row_refId row)) = None \<longrightarrow>
          row_owner_tx d oc db row rowType = Returned (uid, oc1) \<longrightarrow>
            GetRowPermissionWithTransaction d oc db row
              = Returned (\<lparr>UserId = uid,
                           UserGroupId = [\<lparr>GroupReferenceId = [], ObjectReferenceId = [],
                                            RelationReferenceId = [], Permission = GuestRead\<rparr>],
                           InstancePermission = 0\<rparr>, oc1))
     \<and> (index_map row USER_ACCOUNT_ID_COLUMN \<noteq> VNil
          \<or> (\<exists>s. row_refId row = VString s) \<and> db rowType = None \<longrightarrow>
            row_owner d oc db row rowType
              = Returned (assert_string_ok (index_map row USER_ACCOUNT_ID_COLUMN), oc)
          \<and> row_owner_tx d oc db row rowType
              = Returned (assert_string_ok (index_map row USER_ACCOUNT_ID_COLUMN), oc))"
proof (intro conjI impI)
  assume "row_owner d oc db row rowType = Returned (uid, oc1)"
  with assms show "GetRowPermission d oc db row
              = Returned (\<lparr>UserId = uid,
                           UserGroupId = [\<lparr>GroupReferenceId = [], ObjectReferenceId = [],
                                            RelationReferenceId = [], Permission = GuestRead\<rparr>],
                           InstancePermission = 0\<rparr>, oc1)"
    by (simp add: GetRowPermission_def assert_string_def and_then_def guest_read_only_def)
next
  assume "cache_Get oc (row_permission_key d rowType (row_refId row)) = None"
    and "row_owner_tx d oc db row rowType = Returned (uid, oc1)"
  with assms show "GetRowPermissionWithTransaction d oc db row
              = Returned (\<lparr>UserId = uid,
                           UserGroupId = [\<lparr>GroupReferenceId = [], ObjectReferenceId = [],
                                            RelationReferenceId = [], Permission = GuestRead\<rparr>],
                           InstancePermission = 0\<rparr>, oc1)"
    by (simp add: GetRowPermissionWithTransaction_def assert_string_def and_then_def
        guest_read_only_def Let_def)
next
  assume h: "index_map row USER_ACCOUNT_ID_COLUMN \<noteq> VNil
          \<or> (\<exists>s. row_refId row = VString s) \<and> db rowType = None"
  note nu = file_or_none_not_usergroup[OF assms(2)]
  show "row_owner d oc db row rowType
              = Returned (assert_string_ok (index_map row USER_ACCOUNT_ID_COLUMN), oc)"
  proof (cases "index_map row USER_ACCOUNT_ID_COLUMN \<noteq> VNil")
    case True
    with nu show ?thesis by (simp add: row_owner_def)
  next
    case False
    with h obtain s where "row_refId row = VString s" "db rowType = None" by blast
    with False nu show ?thesis
      by (simp add: row_owner_def assert_string_def and_then_def owner_lookup_no_table
          assert_string_ok_def)
  qed
  show "row_owner_tx d oc db row rowType
              = Returned (assert_string_ok (index_map row USER_ACCOUNT_ID_COLUMN), oc)"
  proof (cases "index_map row USER_ACCOUNT_ID_COLUMN \<noteq> VNil")
    case True
    with nu show ?thesis by (simp add: row_owner_tx_def)
  next
    case False
    with h obtain s where "row_refId row = VString s" "db rowType = None" by blast
    with False nu show ?thesis
      by (simp add: row_owner_tx_def assert_string_def and_then_def owner_lookup_no_table
          assert_string_ok_def)
  qed
qed

lemmas S5_eval = GetRowPermission_def GetRowPermissionWithTransaction_def row_owner_def
  row_owner_tx_def row_refId_def row_permission_key_def fmt_v_def cache_Get_def
  GetReferenceIdToObjectColumn_def GetReferenceIdToObjectColumnWithTransaction_def
  sql_select_def assert_string_def assert_string_ok_def and_then_def index_map_def
  BeginsWith_def guest_read_only_def USER_ACCOUNT_ID_COLUMN_def S1_db_def Let_def

theorem C4_guest_only_witness:
  "GetRowPermission S1_resource None S1_db
       [''__type'' \<mapsto> VString ''file.image'', ''reference_id'' \<mapsto> VString ''r'',
        ''permission'' \<mapsto> VInt64 0]
     = Returned (\<lparr>UserId = [],
                  UserGroupId = [\<lparr>GroupReferenceId = [], ObjectReferenceId = [],
                                   RelationReferenceId = [], Permission = GuestRead\<rparr>],
                  InstancePermission = 0\<rparr>, None)
   \<and> GetRowPermissionWithTransaction S1_resource (Some Map.empty) S1_db
       [''__type'' \<mapsto> VString ''file.image'', ''reference_id'' \<mapsto> VString ''r'',
        ''permission'' \<mapsto> VInt64 0]
     = Returned (\<lparr>UserId = [],
                  UserGroupId = [\<lparr>GroupReferenceId = [], ObjectReferenceId = [],
                                   RelationReferenceId = [], Permission = GuestRead\<rparr>],
                  InstancePermission = 0\<rparr>, Some Map.empty)"
  using C4_guest_only
    [of "[''__type'' \<mapsto> VString ''file.image'', ''reference_id'' \<mapsto> VString ''r'',
          ''permission'' \<mapsto> VInt64 0]" "''file.image''" S1_resource None S1_db "[]" None]
    C4_guest_only
    [of "[''__type'' \<mapsto> VString ''file.image'', ''reference_id'' \<mapsto> VString ''r'',
          ''permission'' \<mapsto> VInt64 0]" "''file.image''" S1_resource "Some Map.empty" S1_db "[]"
        "Some Map.empty"]
  by (simp add: index_map_def BeginsWith_def row_refId_def S1_db_def cache_Get_def
      USER_ACCOUNT_ID_COLUMN_def assert_string_ok_def)

text \<open>
  The property as the specification states it fails on a row of type \<^verbatim>\<open>none\<close> with neither owner nor reference
  id, where \<^verbatim>\<open>refId.(string)\<close> panics, and, for the variant with a transaction, on a row
  whose key is in the cache, where the cached permission (here one without groups) is
  returned.
\<close>

theorem C4_guest_only_counterexample:
  "GetRowPermission S1_resource None S1_db [''__type'' \<mapsto> VString ''none'']
     = Panic ''interface conversion: interface {} is not string''
   \<and> GetRowPermissionWithTransaction S1_resource
        (Some [''row-permission-file.image-r'' \<mapsto> (CPermission zero_PermissionInstance, 1 * Minute)])
        S1_db
        [''__type'' \<mapsto> VString ''file.image'', ''reference_id'' \<mapsto> VString ''r'',
         ''permission'' \<mapsto> VInt64 0]
     = Returned (zero_PermissionInstance,
         Some [''row-permission-file.image-r'' \<mapsto> (CPermission zero_PermissionInstance, 1 * Minute)])
   \<and> UserGroupId zero_PermissionInstance = []"
  by (simp add: S5_eval zero_PermissionInstance_def)

end
